theory Spec2Isabelle
  imports Complex_Main "HOL-Library.Sublist"
begin

section \<open>Python values shared by the modelled modules\<close>

text \<open>
  A Python exception is a value: the class that matters to a handler in the modelled
  code, and the message that \<^verbatim>\<open>str(e)\<close> gives.
\<close>

datatype exn =
    TimeoutError string
  | KeyError string
  | ZeroDivisionError string
  | AttributeError string
  | PyException string

fun str_exn :: "exn \<Rightarrow> string" where
  "str_exn (TimeoutError m) = m"
| "str_exn (KeyError m) = m"
| "str_exn (ZeroDivisionError m) = m"
| "str_exn (AttributeError m) = m"
| "str_exn (PyException m) = m"

section \<open>\<^verbatim>\<open>llm_fallback_manager.py\<close>: the fallback manager\<close>

subsection \<open>Strings\<close>

text \<open>
  A Python string is a sequence of code points; here it is the list of the bytes of its
  UTF-8 encoding. \<open>contains s sub\<close> is \<^verbatim>\<open>sub in s\<close>, which a search on the bytes decides.
  \<open>slice_chars n s\<close> is \<^verbatim>\<open>s[:n]\<close>: the bytes of the first \<open>n\<close> code points, a code point
  being a byte that is not a continuation byte together with the continuation bytes after
  it. \<open>lower\<close> is \<^verbatim>\<open>s.lower()\<close> on the ASCII capitals and leaves every other character as it
  is.
\<close>

fun startswith :: "string \<Rightarrow> string \<Rightarrow> bool" where
  "startswith s [] = True"
| "startswith [] (c # sub) = False"
| "startswith (d # s) (c # sub) = (d = c \<and> startswith s sub)"

fun contains :: "string \<Rightarrow> string \<Rightarrow> bool" where
  "contains [] sub = (sub = [])"
| "contains (d # s) sub = (startswith (d # s) sub \<or> contains s sub)"

definition is_continuation :: "char \<Rightarrow> bool" where
  "is_continuation c = (128 \<le> (of_char c :: nat) \<and> (of_char c :: nat) < 192)"

fun slice_chars :: "nat \<Rightarrow> string \<Rightarrow> string" where
  "slice_chars n [] = []"
| "slice_chars n (c # cs) =
     (if is_continuation c then c # slice_chars n cs
      else (case n of 0 \<Rightarrow> [] | Suc k \<Rightarrow> c # slice_chars k cs))"

definition lower_char :: "char \<Rightarrow> char" where
  "lower_char c =
     (let n = (of_char c :: nat) in if 65 \<le> n \<and> n \<le> 90 then char_of (n + 32) else c)"

definition lower :: "string \<Rightarrow> string" where
  "lower s = map lower_char s"

subsection \<open>Data\<close>

datatype FallbackReason =
    API_ERROR | TIMEOUT | RATE_LIMIT | CONTENT_POLICY | LOW_RESOURCES
  | MANUAL_OVERRIDE | COST_LIMIT | CONTENT_BASED | SYSTEM_ERROR

fun reason_value :: "FallbackReason \<Rightarrow> string" where
  "reason_value API_ERROR = ''api_error''"
| "reason_value TIMEOUT = ''timeout''"
| "reason_value RATE_LIMIT = ''rate_limit''"
| "reason_value CONTENT_POLICY = ''content_policy''"
| "reason_value LOW_RESOURCES = ''low_resources''"
| "reason_value MANUAL_OVERRIDE = ''manual_override''"
| "reason_value COST_LIMIT = ''cost_limit''"
| "reason_value CONTENT_BASED = ''content_based''"
| "reason_value SYSTEM_ERROR = ''system_error''"

text \<open>
  A model identifier is a Python \<^verbatim>\<open>Optional[str]\<close>: \<open>None\<close> is Python's \<^verbatim>\<open>None\<close>
  (the default of the \<^verbatim>\<open>model\<close> argument of \<^verbatim>\<open>generate_with_fallback\<close>).
\<close>

type_synonym model_id = "string option"

record FallbackEvent =
  timestamp :: real
  original_model :: model_id
  fallback_model :: string
  reason :: FallbackReason
  message_hash :: string
  ev_success :: bool
  latency :: "real option"
  error_message :: "string option"

text \<open>
  An entry of the \<^verbatim>\<open>api_fallbacks\<close> configuration is a dictionary; a field is \<open>None\<close>
  when the key is absent, and the readers below supply the defaults of the source's
  \<^verbatim>\<open>provider.get(key, default)\<close>.
\<close>

record provider =
  p_model_name :: "string option"
  p_priority :: "int option"
  p_enabled :: "bool option"

definition get_model_name :: "provider \<Rightarrow> string" where
  "get_model_name p = (case p_model_name p of None \<Rightarrow> [] | Some n \<Rightarrow> n)"

definition get_priority :: "provider \<Rightarrow> int" where
  "get_priority p = (case p_priority p of None \<Rightarrow> 999 | Some n \<Rightarrow> n)"

definition get_enabled :: "provider \<Rightarrow> bool" where
  "get_enabled p = (case p_enabled p of None \<Rightarrow> False | Some b \<Rightarrow> b)"

text \<open>A rule of \<^verbatim>\<open>routing_rules["content_based"]\<close>, with the defaults already read.\<close>

record routing_rule =
  pattern :: string
  preferred_models :: "string list"

text \<open>
  The manager. \<open>local_models\<close> lists the keys of the dictionary of that name in
  insertion order; \<open>api_primary\<close> and \<open>api_secondary\<close> are the two entries of
  \<^verbatim>\<open>self.api_fallbacks\<close>; \<open>content_based\<close> and \<open>resource_based\<close> are the entries of
  \<^verbatim>\<open>self.routing_rules\<close> (\<open>None\<close>: no such key; for \<open>resource_based\<close> the value is the
  list \<^verbatim>\<open>["low_memory"]["preferred_models"]\<close>); \<open>persistent_failure_strategy\<close> and
  \<open>timeout\<close> are read from \<^verbatim>\<open>self.config\<close> with the defaults \<^verbatim>\<open>"degrade"\<close> and \<^verbatim>\<open>30\<close>,
  the timeout kept as the text that the f-string prints; \<open>cpu_optimized\<close> tells whether
  the attribute of that name holds an object.
\<close>

record fallback_manager =
  enabled :: bool
  local_models :: "string list"
  api_primary :: "provider option"
  api_secondary :: "provider list"
  content_based :: "routing_rule list option"
  resource_based :: "string list option"
  persistent_failure_strategy :: string
  timeout :: string
  cpu_optimized :: bool
  fallback_events :: "FallbackEvent list"

text \<open>
  The part of \<^verbatim>\<open>initialize\<close> that caches the API fallbacks: the primary provider when
  it is enabled, and the enabled secondary providers sorted by priority (Python's sort is
  stable, as \<open>sort_key\<close> is).
\<close>

record api_fallbacks_config =
  cfg_primary :: "provider option"
  cfg_secondary :: "provider list option"

definition initialize_api_fallbacks ::
  "api_fallbacks_config \<Rightarrow> fallback_manager \<Rightarrow> fallback_manager" where
  "initialize_api_fallbacks cfg m =
     (let m1 = (case cfg_primary cfg of
                  None \<Rightarrow> m
                | Some p \<Rightarrow> if get_enabled p then m\<lparr>api_primary := Some p\<rparr> else m)
      in case cfg_secondary cfg of
           None \<Rightarrow> m1
         | Some ps \<Rightarrow> m1\<lparr>api_secondary := sort_key get_priority (filter get_enabled ps)\<rparr>)"

subsection \<open>The world outside the manager\<close>

datatype ModelStatus = AVAILABLE | UNAVAILABLE | LOADING | ERROR | MAINTENANCE

text \<open>
  The collaborators of the manager that are not part of the modelled modules:
  \<^item> \<open>low_memory_mode\<close>: the result of \<^verbatim>\<open>_check_low_memory_mode\<close> (a \<^verbatim>\<open>psutil\<close> reading);
  \<^item> \<open>re_search pattern message\<close>: whether \<^verbatim>\<open>re.search(pattern, message, re.IGNORECASE)\<close>
    finds a match, or the exception it raises;
  \<^item> \<open>bridge_providers\<close>: the keys of the dictionary \<^verbatim>\<open>providers\<close> of the bridge once it
    is initialised, in insertion order;
  \<^item> \<open>get_model_info\<close>: the status in the record that \<^verbatim>\<open>model_manager.get_model_info\<close>
    returns (\<open>None\<close>: no record), or the exception it raises;
  \<^item> \<open>provider_respond i message key\<close>: what the provider object registered in the bridge
    under \<open>key\<close> returns (\<open>None\<close>: Python's \<^verbatim>\<open>None\<close>) or raises when it is called in the
    \<open>i\<close>-th backend invocation of the current request (the primary is invocation 0);
  \<^item> \<open>cpu_load i\<close>: the exception, if any, that loading the CPU-optimised model raises
    before invocation \<open>i\<close>; \<open>cpu_generate i message\<close>: the \<^verbatim>\<open>"generated_code"\<close> entry
    (or \<^verbatim>\<open>""\<close>) of what its \<^verbatim>\<open>generate_code\<close> returns, or the exception it raises;
  \<^item> \<open>exceeds_timeout i\<close>: invocation \<open>i\<close> does not finish within the configured timeout,
    so that \<^verbatim>\<open>asyncio.wait_for\<close> raises \<^verbatim>\<open>asyncio.TimeoutError\<close>;
  \<^item> \<open>elapsed i\<close>: the time measured around the \<open>i\<close>-th invocation; \<open>now\<close>: the clock when
    the event is created; \<open>hash_text\<close>: \<^verbatim>\<open>str(hash(message))[:10]\<close>.
\<close>

record world =
  low_memory_mode :: bool
  re_search :: "string \<Rightarrow> string \<Rightarrow> exn + bool"
  bridge_providers :: "string list"
  get_model_info :: "string \<Rightarrow> exn + ModelStatus option"
  provider_respond :: "nat \<Rightarrow> string \<Rightarrow> string \<Rightarrow> exn + string option"
  cpu_load :: "nat \<Rightarrow> exn option"
  cpu_generate :: "nat \<Rightarrow> string \<Rightarrow> exn + string"
  exceeds_timeout :: "nat \<Rightarrow> bool"
  elapsed :: "nat \<Rightarrow> real"
  now :: real
  hash_text :: "string \<Rightarrow> string"

subsection \<open>\<^verbatim>\<open>llm_bridge.py\<close>: the bridge\<close>

text \<open>
  \<^verbatim>\<open>LLMBridge.get_available_models\<close>: the keys of the providers. The initialisation that
  it may run first catches its own exceptions, so the call returns a list; the sum type
  is that of a call that is awaited.
\<close>

definition get_available_models :: "world \<Rightarrow> exn + string list" where
  "get_available_models w = Inr (bridge_providers w)"

text \<open>
  \<^verbatim>\<open>LLMBridge.generate_response\<close> as invocation \<open>i\<close>. A model without a provider is
  replaced by the first provider there is; without any provider a fixed text is returned.
  The call of the provider is inside \<^verbatim>\<open>try ... except Exception\<close>, and the handler returns
  a text, so the bridge returns a string whatever the provider does; a false value of the
  provider (\<^verbatim>\<open>None\<close>, the empty string) is replaced by a text, too.
\<close>

definition bridge_generate_response :: "world \<Rightarrow> nat \<Rightarrow> string \<Rightarrow> model_id \<Rightarrow> string" where
  "bridge_generate_response w i message model =
     (case (if model \<in> Some ` set (bridge_providers w) then model
            else (case bridge_providers w of [] \<Rightarrow> None | key # keys \<Rightarrow> Some key)) of
        None \<Rightarrow> ''No LLM providers available. Please configure API keys.''
      | Some key \<Rightarrow>
          (case provider_respond w i message key of
             Inl e \<Rightarrow> ''Error generating response with '' @ key @ '': '' @ str_exn e
           | Inr None \<Rightarrow> ''Generated response from '' @ key @ '': '' @ message
           | Inr (Some response) \<Rightarrow>
               if response = [] then ''Generated response from '' @ key @ '': '' @ message
               else response))"

subsection \<open>Selection\<close>

definition is_model_available :: "world \<Rightarrow> fallback_manager \<Rightarrow> string \<Rightarrow> exn + bool" where
  "is_model_available w m mid =
     (if mid \<in> set (local_models m) then Inr True
      else case get_available_models w of
             Inl e \<Rightarrow> Inl e
           | Inr api_models \<Rightarrow>
               if mid \<in> set api_models then Inr True
               else (case get_model_info w mid of
                       Inl e \<Rightarrow> Inr False
                     | Inr None \<Rightarrow> Inr False
                     | Inr (Some st) \<Rightarrow> Inr (st \<noteq> ERROR)))"

text \<open>The loop \<^verbatim>\<open>for model in preferred_models: if available: return model\<close>.\<close>

fun first_available :: "world \<Rightarrow> fallback_manager \<Rightarrow> string list \<Rightarrow> exn + string option" where
  "first_available w m [] = Inr None"
| "first_available w m (x # xs) =
     (case is_model_available w m x of
        Inl e \<Rightarrow> Inl e
      | Inr True \<Rightarrow> Inr (Some x)
      | Inr False \<Rightarrow> first_available w m xs)"

text \<open>The loop over the content-based rules; \<open>Inr None\<close> when no rule returned a model.\<close>

fun content_based_routing ::
  "world \<Rightarrow> fallback_manager \<Rightarrow> string \<Rightarrow> routing_rule list \<Rightarrow> exn + string option" where
  "content_based_routing w m message [] = Inr None"
| "content_based_routing w m message (rule # rules) =
     (if pattern rule = [] then content_based_routing w m message rules
      else case re_search w (pattern rule) message of
             Inl e \<Rightarrow> Inl e
           | Inr False \<Rightarrow> content_based_routing w m message rules
           | Inr True \<Rightarrow>
               (case first_available w m (preferred_models rule) of
                  Inl e \<Rightarrow> Inl e
                | Inr (Some x) \<Rightarrow> Inr (Some x)
                | Inr None \<Rightarrow> content_based_routing w m message rules))"

text \<open>
  \<^verbatim>\<open>context.get("model", "")\<close>: the context is given by its \<^verbatim>\<open>"model"\<close> entry, \<open>None\<close>
  when the dictionary has no such key.
\<close>

definition context_get_model :: "model_id option \<Rightarrow> model_id" where
  "context_get_model c = (case c of None \<Rightarrow> Some [] | Some v \<Rightarrow> v)"

text \<open>The body of the \<^verbatim>\<open>try\<close> block of \<^verbatim>\<open>select_optimal_model\<close>.\<close>

definition select_routed ::
  "world \<Rightarrow> fallback_manager \<Rightarrow> string \<Rightarrow> model_id option \<Rightarrow> exn + model_id" where
  "select_routed w m message c =
     (let original = context_get_model c in
      case (case content_based m of
              None \<Rightarrow> Inr None
            | Some rules \<Rightarrow> content_based_routing w m message rules) of
        Inl e \<Rightarrow> Inl e
      | Inr (Some x) \<Rightarrow> Inr (Some x)
      | Inr None \<Rightarrow>
          (case (if low_memory_mode w
                 then (case resource_based m of
                         None \<Rightarrow> Inr None
                       | Some prefs \<Rightarrow> first_available w m prefs)
                 else Inr None) of
             Inl e \<Rightarrow> Inl e
           | Inr (Some x) \<Rightarrow> Inr (Some x)
           | Inr None \<Rightarrow> Inr original))"

definition select_optimal_model ::
  "world \<Rightarrow> fallback_manager \<Rightarrow> string \<Rightarrow> model_id option \<Rightarrow> model_id" where
  "select_optimal_model w m message c =
     (if \<not> enabled m then context_get_model c
      else case select_routed w m message c of
             Inl e \<Rightarrow> context_get_model c
           | Inr r \<Rightarrow> r)"

subsection \<open>The fallback chain\<close>

text \<open>
  \<^verbatim>\<open>[x for x in fallback_chain if not (x in seen or seen.add(x))]\<close>: the first occurrence
  of every element, in order.
\<close>

fun unique_chain :: "string set \<Rightarrow> string list \<Rightarrow> string list" where
  "unique_chain seen [] = []"
| "unique_chain seen (x # xs) =
     (if x \<in> seen then unique_chain seen xs else x # unique_chain (insert x seen) xs)"

text \<open>
  The two branches append to \<^verbatim>\<open>fallback_chain\<close> in the order written here. The handler
  of the \<^verbatim>\<open>try\<close> block has no counterpart: with entries that are dictionaries, as
  \<open>provider\<close> is, nothing in the block raises.
\<close>

definition get_fallback_chain :: "fallback_manager \<Rightarrow> model_id \<Rightarrow> string list" where
  "get_fallback_chain m original =
     (let fallback_chain =
        (if original \<in> Some ` set (local_models m)
         then (case api_primary m of None \<Rightarrow> [] | Some p \<Rightarrow> [get_model_name p])
              @ map get_model_name (api_secondary m)
              @ filter (\<lambda>mid. Some mid \<noteq> original) (local_models m)
         else (case api_primary m of
                 None \<Rightarrow> []
               | Some p \<Rightarrow> if Some (get_model_name p) \<noteq> original then [get_model_name p] else [])
              @ filter (\<lambda>name. Some name \<noteq> original) (map get_model_name (api_secondary m))
              @ local_models m)
        @ [''deepseek-r1'']
      in unique_chain {} fallback_chain)"

subsection \<open>Generation\<close>

text \<open>
  \<^verbatim>\<open>_try_generate_with_model\<close> as invocation \<open>i\<close>. A registered local model is answered
  by a fixed text. For \<^verbatim>\<open>"deepseek-r1"\<close> with a CPU-optimised model, loading and generation
  are inside \<^verbatim>\<open>try ... except asyncio.TimeoutError\<close>; that class is the built-in
  \<^verbatim>\<open>TimeoutError\<close> (Python 3.11 and later), so a time-out raised by the model itself is
  replaced by the fixed error as well. Every other model goes to the bridge under
  \<^verbatim>\<open>asyncio.wait_for\<close>; the bridge does not raise, so such a model fails by a time-out only.
\<close>

definition cpu_timed_out :: "fallback_manager \<Rightarrow> exn" where
  "cpu_timed_out m = TimeoutError (''CPU-optimized model timed out after '' @ timeout m @ ''s'')"

definition api_timed_out :: "fallback_manager \<Rightarrow> exn" where
  "api_timed_out m = TimeoutError (''API model timed out after '' @ timeout m @ ''s'')"

definition replace_timeout :: "fallback_manager \<Rightarrow> exn \<Rightarrow> exn" where
  "replace_timeout m e = (case e of TimeoutError text \<Rightarrow> cpu_timed_out m | _ \<Rightarrow> e)"

definition try_generate_with_model ::
  "world \<Rightarrow> fallback_manager \<Rightarrow> nat \<Rightarrow> string \<Rightarrow> model_id \<Rightarrow> exn + string" where
  "try_generate_with_model w m i message model =
     (case (if model \<in> Some ` set (local_models m) then model else None) of
        Some name \<Rightarrow>
          Inr (''Generated from local model '' @ name @ '': '' @ slice_chars 20 message @ ''...'')
      | None \<Rightarrow>
          if model = Some ''deepseek-r1'' \<and> cpu_optimized m
          then (case cpu_load w i of
                  Some e \<Rightarrow> Inl (replace_timeout m e)
                | None \<Rightarrow>
                    if exceeds_timeout w i then Inl (cpu_timed_out m)
                    else (case cpu_generate w i message of
                            Inl e \<Rightarrow> Inl (replace_timeout m e)
                          | Inr code \<Rightarrow> Inr code))
          else if exceeds_timeout w i then Inl (api_timed_out m)
               else Inr (bridge_generate_response w i message model))"

definition determine_fallback_reason :: "string \<Rightarrow> FallbackReason" where
  "determine_fallback_reason error_text =
     (let error_lower = lower error_text in
      if contains error_lower ''time'' \<and>
         (contains error_lower ''out'' \<or> contains error_lower ''exceed'') then TIMEOUT
      else if contains error_lower ''rate'' \<and> contains error_lower ''limit'' then RATE_LIMIT
      else if list_ex (contains error_lower) [''content'', ''policy'', ''moderation'']
        then CONTENT_POLICY
      else if list_ex (contains error_lower) [''resource'', ''memory'', ''capacity'']
        then LOW_RESOURCES
      else if list_ex (contains error_lower) [''cost'', ''billing'', ''quota''] then COST_LIMIT
      else API_ERROR)"

text \<open>
  The metadata dictionary returned with the response text. \<open>md_model\<close> and
  \<open>md_fallback_used\<close> are in every such dictionary; an optional field is \<open>None\<close> when the
  dictionary has no such key.
\<close>

record metadata =
  md_model :: model_id
  md_original_model :: "model_id option"
  md_fallback_used :: bool
  md_fallback_reason :: "string option"
  md_fallback_success :: "bool option"
  md_latency :: "real option"
  md_error :: "string option"

text \<open>
  The loop over the fallback chain. \<open>i\<close> numbers the invocation. The result lists the
  models invoked, in order, and gives the first success: its number, its model and its
  response.
\<close>

fun try_fallbacks ::
  "world \<Rightarrow> fallback_manager \<Rightarrow> string \<Rightarrow> nat \<Rightarrow> string list \<Rightarrow>
   string list \<times> (nat \<times> string \<times> string) option" where
  "try_fallbacks w m message i [] = ([], None)"
| "try_fallbacks w m message i (fb # chain) =
     (case try_generate_with_model w m i message (Some fb) of
        Inr response \<Rightarrow> ([fb], Some (i, fb, response))
      | Inl e \<Rightarrow>
          (case try_fallbacks w m message (Suc i) chain of
             (tried, r) \<Rightarrow> (fb # tried, r)))"

definition degraded_text :: string where
  "degraded_text =
     ''I'm currently experiencing technical difficulties. '' @
     ''Please try again later or rephrase your request.''"

text \<open>
  What one call of \<^verbatim>\<open>generate_with_fallback\<close> does: \<open>returned\<close> is the returned pair or
  the exception that leaves the call, \<open>invoked\<close> the models handed to a backend, in
  order (the primary first), \<open>manager\<close> the manager afterwards.
\<close>

record generation =
  returned :: "exn + string \<times> metadata"
  invoked :: "model_id list"
  manager :: fallback_manager

text \<open>The four dictionaries that the function returns.\<close>

definition passthrough_metadata :: "model_id \<Rightarrow> metadata" where
  "passthrough_metadata model =
     \<lparr>md_model = model, md_original_model = None, md_fallback_used = False,
      md_fallback_reason = None, md_fallback_success = None, md_latency = None,
      md_error = None\<rparr>"

definition primary_metadata :: "model_id \<Rightarrow> real \<Rightarrow> metadata" where
  "primary_metadata model original_latency =
     \<lparr>md_model = model, md_original_model = None, md_fallback_used = False,
      md_fallback_reason = None, md_fallback_success = None,
      md_latency = Some original_latency, md_error = None\<rparr>"

definition fallback_metadata :: "string \<Rightarrow> model_id \<Rightarrow> FallbackReason \<Rightarrow> real \<Rightarrow> metadata" where
  "fallback_metadata fb model r fallback_latency =
     \<lparr>md_model = Some fb, md_original_model = Some model, md_fallback_used = True,
      md_fallback_reason = Some (reason_value r), md_fallback_success = None,
      md_latency = Some fallback_latency, md_error = None\<rparr>"

definition degraded_metadata :: "model_id \<Rightarrow> exn \<Rightarrow> metadata" where
  "degraded_metadata model primary_error =
     \<lparr>md_model = Some ''degraded'', md_original_model = Some model, md_fallback_used = True,
      md_fallback_reason = None, md_fallback_success = Some False, md_latency = None,
      md_error = Some (str_exn primary_error)\<rparr>"

text \<open>The event created when the primary model has failed.\<close>

definition new_event :: "world \<Rightarrow> string \<Rightarrow> model_id \<Rightarrow> exn \<Rightarrow> FallbackEvent" where
  "new_event w message model primary_error =
     \<lparr>timestamp = now w, original_model = model, fallback_model = [],
      reason = determine_fallback_reason (str_exn primary_error),
      message_hash = hash_text w message, ev_success = False, latency = None,
      error_message = Some (str_exn primary_error)\<rparr>"

definition append_event :: "fallback_manager \<Rightarrow> FallbackEvent \<Rightarrow> fallback_manager" where
  "append_event m ev = m\<lparr>fallback_events := fallback_events m @ [ev]\<rparr>"

text \<open>
  The handler of the primary failure: the loop over the chain, the event, and the
  persistent-failure strategy. \<open>event.fallback_model\<close> is assigned in every iteration, so
  after a loop without success it names the last model tried.
\<close>

definition handle_primary_failure ::
  "world \<Rightarrow> fallback_manager \<Rightarrow> string \<Rightarrow> model_id \<Rightarrow> string list \<Rightarrow> exn \<Rightarrow> generation" where
  "handle_primary_failure w m message model fallback_chain primary_error =
     (let event = new_event w message model primary_error in
      case try_fallbacks w m message 1 fallback_chain of
        (tried, Some (i, fb, response)) \<Rightarrow>
          \<lparr>returned = Inr (response, fallback_metadata fb model (reason event) (elapsed w i)),
           invoked = model # map Some tried,
           manager = append_event m
             (event\<lparr>fallback_model := fb, ev_success := True, latency := Some (elapsed w i)\<rparr>)\<rparr>
      | (tried, None) \<Rightarrow>
          \<lparr>returned =
             (if persistent_failure_strategy m = ''degrade''
              then Inr (degraded_text, degraded_metadata model primary_error)
              else Inl primary_error),
           invoked = model # map Some tried,
           manager = append_event m
             (event\<lparr>fallback_model := (if tried = [] then [] else last tried)\<rparr>)\<rparr>)"

definition generate_with_fallback ::
  "world \<Rightarrow> fallback_manager \<Rightarrow> string \<Rightarrow> model_id \<Rightarrow> generation" where
  "generate_with_fallback w m message model0 =
     (if \<not> enabled m
      then \<lparr>returned =
              Inr (bridge_generate_response w 0 message model0, passthrough_metadata model0),
            invoked = [model0], manager = m\<rparr>
      else
        (let model = select_optimal_model w m message (Some model0);
             fallback_chain = get_fallback_chain m model
         in case try_generate_with_model w m 0 message model of
              Inr response \<Rightarrow>
                \<lparr>returned = Inr (response, primary_metadata model (elapsed w 0)),
                 invoked = [model], manager = m\<rparr>
            | Inl primary_error \<Rightarrow>
                handle_primary_failure w m message model fallback_chain primary_error))"

subsection \<open>Derived quantities and sample configurations\<close>

text \<open>The names of the cached API fallbacks: the primary one, then the secondary ones.\<close>

definition api_fallback_names :: "fallback_manager \<Rightarrow> string list" where
  "api_fallback_names m =
     (case api_primary m of None \<Rightarrow> [] | Some p \<Rightarrow> [get_model_name p]) @
     map get_model_name (api_secondary m)"

text \<open>The number of entries that the manager can put into a chain before deduplication.\<close>

definition configured_fallbacks :: "fallback_manager \<Rightarrow> nat" where
  "configured_fallbacks m =
     (case api_primary m of None \<Rightarrow> 0 | Some p \<Rightarrow> 1) + length (api_secondary m) +
     length (local_models m) + 1"

text \<open>
  \<open>rule_passes_over\<close>: the loop over the content rules goes past the rule, because its
  pattern is empty, or does not match, or matches while none of its preferred models
  passes the availability check. \<open>chain_api_part\<close> and \<open>chain_local_part\<close>: the API names
  and the local models that \<open>get_fallback_chain\<close> appends for this original model.
\<close>

definition rule_passes_over :: "world \<Rightarrow> fallback_manager \<Rightarrow> string \<Rightarrow> routing_rule \<Rightarrow> bool" where
  "rule_passes_over w m message r =
     (pattern r = [] \<or>
      re_search w (pattern r) message = Inr False \<or>
      (re_search w (pattern r) message = Inr True \<and>
       list_all (\<lambda>y. is_model_available w m y = Inr False) (preferred_models r)))"

definition chain_api_part :: "fallback_manager \<Rightarrow> model_id \<Rightarrow> string list" where
  "chain_api_part m original =
     (if original \<in> Some ` set (local_models m) then api_fallback_names m
      else filter (\<lambda>name. Some name \<noteq> original) (api_fallback_names m))"

definition chain_local_part :: "fallback_manager \<Rightarrow> model_id \<Rightarrow> string list" where
  "chain_local_part m original =
     (if original \<in> Some ` set (local_models m)
      then filter (\<lambda>mid. Some mid \<noteq> original) (local_models m)
      else local_models m)"

text \<open>
  A world in which every backend invocation runs into the timeout, the bridge has no
  provider and no model is reported available; the model manager knows one model, in
  status \<open>ERROR\<close>. And a world in which the bridge has one provider, every provider and the
  CPU-optimised model answer with an error, and nothing runs into the timeout.
\<close>

definition quiet_world :: world where
  "quiet_world =
     \<lparr>low_memory_mode = False,
      re_search = (\<lambda>p s. Inr False),
      bridge_providers = [],
      get_model_info = (\<lambda>mid. if mid = ''broken'' then Inr (Some ERROR) else Inr None),
      provider_respond = (\<lambda>i message key. Inl (PyException ''HTTP 503'')),
      cpu_load = (\<lambda>i. None),
      cpu_generate = (\<lambda>i message. Inl (PyException ''model file missing'')),
      exceeds_timeout = (\<lambda>i. True),
      elapsed = (\<lambda>i. 0),
      now = 0,
      hash_text = (\<lambda>message. [])\<rparr>"


text \<open>Managers as \<^verbatim>\<open>initialize\<close> leaves them for a few configuration files.\<close>

definition api_only_manager :: fallback_manager where
  "api_only_manager =
     \<lparr>enabled = True, local_models = [],
      api_primary = Some \<lparr>p_model_name = Some ''gpt-4'', p_priority = None, p_enabled = Some True\<rparr>,
      api_secondary = [], content_based = None, resource_based = None,
      persistent_failure_strategy = ''degrade'', timeout = ''30'', cpu_optimized = True,
      fallback_events = []\<rparr>"



definition two_local_manager :: fallback_manager where
  "two_local_manager = api_only_manager\<lparr>local_models := [''local-a'', ''local-b'']\<rparr>"

definition routing_manager :: fallback_manager where
  "routing_manager =
     two_local_manager\<lparr>content_based :=
       Some [\<lparr>pattern = ''code'', preferred_models = [''codellama'', ''local-b'']\<rparr>]\<rparr>"

definition matching_world :: world where
  "matching_world = quiet_world\<lparr>re_search := (\<lambda>p s. Inr True)\<rparr>"

definition sample_config :: api_fallbacks_config where
  "sample_config =
     \<lparr>cfg_primary = Some \<lparr>p_model_name = Some ''gpt-4'', p_priority = None, p_enabled = Some True\<rparr>,
      cfg_secondary = Some
        [\<lparr>p_model_name = Some ''claude-3'', p_priority = Some 2, p_enabled = Some True\<rparr>,
         \<lparr>p_model_name = Some ''gemini'', p_priority = Some 1, p_enabled = Some True\<rparr>,
         \<lparr>p_model_name = Some ''mistral'', p_priority = Some 0, p_enabled = None\<rparr>]\<rparr>"

section \<open>\<^verbatim>\<open>optimized_llm_manager.py\<close>: provider selection by hardware and priority\<close>

datatype LLMProvider =
    DEEPSEEK_LOCAL | DEEPSEEK_API | OPENAI_API | ANTHROPIC_API | GEMINI_API | FALLBACK

text \<open>Floats are real numbers here; the model compares them and never rounds.\<close>

record HardwareProfile =
  cpu_cores :: int
  cpu_freq :: real
  ram_gb :: real
  has_gpu :: bool
  gpu_memory_gb :: real
  can_run_local_llm :: bool
  recommended_model_size :: string

record LLMConfig =
  provider :: LLMProvider
  model_name :: string
  api_key :: "string option"
  base_url :: "string option"
  max_tokens :: int
  temperature :: real
  cost_per_request :: real
  requires_gpu :: bool
  min_ram_gb :: real
  priority :: int

text \<open>
  The manager: \<open>available_providers\<close> is the dictionary of that name as the list of its
  items in insertion order.
\<close>

record OptimizedLLMManager =
  hardware_profile :: HardwareProfile
  available_providers :: "(LLMProvider \<times> LLMConfig) list"
  current_provider :: "LLMProvider option"
  user_preference :: "LLMProvider option"

definition can_run_local_llm_check :: "int \<Rightarrow> real \<Rightarrow> real \<Rightarrow> bool \<Rightarrow> bool" where
  "can_run_local_llm_check cores freq ram gpu =
     (if freq \<ge> 1.0 \<and> ram \<ge> 6.0 \<and> cores \<ge> 4 then True
      else freq \<ge> 1.5 \<and> ram \<ge> 8.0 \<and> cores \<ge> 4)"

definition get_recommended_model_size :: "real \<Rightarrow> real \<Rightarrow> bool \<Rightarrow> real \<Rightarrow> string" where
  "get_recommended_model_size freq ram gpu gpu_mem =
     (if gpu \<and> gpu_mem \<ge> 16 then ''large''
      else if gpu \<and> gpu_mem \<ge> 8 then ''medium''
      else if ram \<ge> 16 \<and> freq \<ge> 2.5 then ''medium''
      else if ram \<ge> 8 \<and> freq \<ge> 1.5 then ''small''
      else ''tiny'')"

text \<open>
  \<^verbatim>\<open>_analyze_hardware\<close> on the readings of \<^verbatim>\<open>psutil\<close> and of the GPU probes, which are
  its arguments here.
\<close>

definition analyze_hardware :: "int \<Rightarrow> real \<Rightarrow> real \<Rightarrow> bool \<Rightarrow> real \<Rightarrow> HardwareProfile" where
  "analyze_hardware cores freq ram gpu gpu_mem =
     \<lparr>cpu_cores = cores, cpu_freq = freq, ram_gb = ram, has_gpu = gpu, gpu_memory_gb = gpu_mem,
      can_run_local_llm = can_run_local_llm_check cores freq ram gpu,
      recommended_model_size = get_recommended_model_size freq ram gpu gpu_mem\<rparr>"

text \<open>The defaults of the \<^verbatim>\<open>LLMConfig\<close> dataclass.\<close>

definition default_config :: "LLMProvider \<Rightarrow> string \<Rightarrow> LLMConfig" where
  "default_config p name =
     \<lparr>provider = p, model_name = name, api_key = None, base_url = None, max_tokens = 2048,
      temperature = 0.7, cost_per_request = 0, requires_gpu = False, min_ram_gb = 4,
      priority = 1\<rparr>"

text \<open>The four API keys that \<^verbatim>\<open>_initialize_providers\<close> reads from the environment.\<close>

record api_keys =
  deepseek_api_key :: "string option"
  openai_api_key :: "string option"
  anthropic_api_key :: "string option"
  gemini_api_key :: "string option"

definition initialize_providers :: "HardwareProfile \<Rightarrow> api_keys \<Rightarrow> (LLMProvider \<times> LLMConfig) list" where
  "initialize_providers hw keys =
     (if can_run_local_llm hw
      then [(DEEPSEEK_LOCAL,
             (default_config DEEPSEEK_LOCAL
                (if recommended_model_size hw = ''tiny''
                 then ''deepseek-r1-distill-qwen-1.5b-gguf''
                 else ''deepseek-r1-0528-qwen3-8b-gguf''))
             \<lparr>cost_per_request := 0, requires_gpu := False,
              min_ram_gb := (if recommended_model_size hw = ''tiny'' then 4 else 8),
              priority := 1\<rparr>)]
      else []) @
     [(DEEPSEEK_API,
       (default_config DEEPSEEK_API ''deepseek-r1'')
       \<lparr>api_key := deepseek_api_key keys, base_url := Some ''https://api.deepseek.com/v1'',
        cost_per_request := 0.001, priority := 2\<rparr>),
      (OPENAI_API,
       (default_config OPENAI_API ''gpt-4o-mini'')
       \<lparr>api_key := openai_api_key keys, base_url := Some ''https://api.openai.com/v1'',
        cost_per_request := 0.01, priority := 3\<rparr>),
      (ANTHROPIC_API,
       (default_config ANTHROPIC_API ''claude-3-haiku-20240307'')
       \<lparr>api_key := anthropic_api_key keys, base_url := Some ''https://api.anthropic.com'',
        cost_per_request := 0.015, priority := 4\<rparr>),
      (GEMINI_API,
       (default_config GEMINI_API ''gemini-1.5-flash'')
       \<lparr>api_key := gemini_api_key keys,
        base_url := Some ''https://generativelanguage.googleapis.com/v1beta'',
        cost_per_request := 0.005, priority := 5\<rparr>),
      (FALLBACK,
       (default_config FALLBACK ''enhanced-template'')\<lparr>cost_per_request := 0, priority := 10\<rparr>)]"

text \<open>\<^verbatim>\<open>__init__\<close>, given the hardware profile and the environment.\<close>

definition new_manager :: "HardwareProfile \<Rightarrow> api_keys \<Rightarrow> OptimizedLLMManager" where
  "new_manager hw keys =
     \<lparr>hardware_profile = hw, available_providers = initialize_providers hw keys,
      current_provider = None, user_preference = None\<rparr>"

text \<open>\<^verbatim>\<open>not config.api_key\<close>: \<^verbatim>\<open>None\<close> and the empty string are false.\<close>

definition no_api_key :: "LLMConfig \<Rightarrow> bool" where
  "no_api_key config = (api_key config = None \<or> api_key config = Some [])"

definition can_use_provider :: "HardwareProfile \<Rightarrow> LLMConfig \<Rightarrow> bool" where
  "can_use_provider hw config =
     (if requires_gpu config \<and> \<not> has_gpu hw then False
      else if min_ram_gb config > ram_gb hw then False
      else if provider config \<in> set [DEEPSEEK_API, OPENAI_API, ANTHROPIC_API, GEMINI_API] \<and>
              no_api_key config then False
      else True)"

text \<open>The loop over the sorted providers: the first one that can be used.\<close>

fun first_usable :: "HardwareProfile \<Rightarrow> (LLMProvider \<times> LLMConfig) list \<Rightarrow> LLMProvider option" where
  "first_usable hw [] = None"
| "first_usable hw ((p, config) # rest) =
     (if can_use_provider hw config then Some p else first_usable hw rest)"

definition select_best_provider :: "OptimizedLLMManager \<Rightarrow> OptimizedLLMManager" where
  "select_best_provider m =
     (case (case user_preference m of
              None \<Rightarrow> None
            | Some pref \<Rightarrow>
                (case map_of (available_providers m) pref of
                   None \<Rightarrow> None
                 | Some config \<Rightarrow>
                     if can_use_provider (hardware_profile m) config then Some pref else None)) of
        Some pref \<Rightarrow> m\<lparr>current_provider := Some pref\<rparr>
      | None \<Rightarrow>
          (let sorted_providers = sort_key (\<lambda>x. priority (snd x)) (available_providers m)
           in case first_usable (hardware_profile m) sorted_providers of
                Some p \<Rightarrow> m\<lparr>current_provider := Some p\<rparr>
              | None \<Rightarrow> m\<lparr>current_provider := Some FALLBACK\<rparr>))"

definition set_user_preference :: "OptimizedLLMManager \<Rightarrow> LLMProvider \<Rightarrow> OptimizedLLMManager" where
  "set_user_preference m p =
     (if p \<in> fst ` set (available_providers m) then m\<lparr>user_preference := Some p\<rparr> else m)"

text \<open>
  Sample hosts: a laptop with four cores, 1.1 GHz and 8 GB that has a DeepSeek API key,
  and a host with two cores and 2 GB without any key.
\<close>

definition laptop_manager :: OptimizedLLMManager where
  "laptop_manager =
     new_manager (analyze_hardware 4 1.1 8 False 0)
       \<lparr>deepseek_api_key = Some ''sk-1'', openai_api_key = None, anthropic_api_key = None,
        gemini_api_key = None\<rparr>"

definition small_host_manager :: OptimizedLLMManager where
  "small_host_manager =
     new_manager (analyze_hardware 2 2.0 2 False 0)
       \<lparr>deepseek_api_key = None, openai_api_key = None, anthropic_api_key = None,
        gemini_api_key = None\<rparr>"

text \<open>
  The user's preference when it is registered and passes the check, as the first branch
  of \<open>select_best_provider\<close> computes it; and, per registered provider, its priority, its
  memory requirement and the outcome of the check.
\<close>

definition preferred_provider :: "OptimizedLLMManager \<Rightarrow> LLMProvider option" where
  "preferred_provider m =
     (case user_preference m of
        None \<Rightarrow> None
      | Some pref \<Rightarrow>
          (case map_of (available_providers m) pref of
             None \<Rightarrow> None
           | Some config \<Rightarrow>
               if can_use_provider (hardware_profile m) config then Some pref else None))"

definition provider_summary :: "OptimizedLLMManager \<Rightarrow> (LLMProvider \<times> int \<times> real \<times> bool) list" where
  "provider_summary m =
     map (\<lambda>(p, config). (p, priority config, min_ram_gb config,
                          can_use_provider (hardware_profile m) config))
       (available_providers m)"

definition preferring_manager :: OptimizedLLMManager where
  "preferring_manager = set_user_preference laptop_manager FALLBACK"

section \<open>\<^verbatim>\<open>api_llm_manager.py\<close>: the API manager\<close>

datatype ModelType = API_DEEPSEEK | API_CLAUDE | API_GEMINI | API_OPENAI

fun model_type_value :: "ModelType \<Rightarrow> string" where
  "model_type_value API_DEEPSEEK = ''api_deepseek''"
| "model_type_value API_CLAUDE = ''api_claude''"
| "model_type_value API_GEMINI = ''api_gemini''"
| "model_type_value API_OPENAI = ''api_openai''"

text \<open>
  The dictionary that a provider's \<^verbatim>\<open>generate_response\<close> returns, by the five keys that
  \<^verbatim>\<open>_generate_with_model\<close> reads; a field is \<open>None\<close> when the key is absent.
\<close>

record provider_result =
  res_content :: "string option"
  res_model :: "string option"
  res_tokens_used :: "int option"
  res_cost :: "real option"
  res_provider :: "string option"

record LLMResponse =
  content :: string
  model :: string
  model_type :: ModelType
  tokens_used :: int
  cost :: real
  response_time :: real
  confidence :: real
  provider_name :: string
  response_timestamp :: real
  response_metadata :: "provider_result + string \<times> string"

record ModelConfig =
  mc_model_type :: ModelType
  mc_enabled :: bool
  mc_priority :: int
  cost_per_1k_tokens :: real
  mc_max_tokens :: int
  mc_temperature :: real
  top_p :: real
  mc_api_key :: "string option"

text \<open>The entries of \<^verbatim>\<open>self.metrics\<close> that \<^verbatim>\<open>generate_response\<close> updates.\<close>

record metrics =
  total_requests :: int
  mt_successful_requests :: int
  mt_failed_requests :: int
  total_cost :: real
  total_tokens :: int
  model_usage :: "string \<rightharpoonup> int"

text \<open>
  The manager. \<open>models\<close> lists the keys of the dictionary of provider objects in insertion
  order; what a provider does when called is part of the world below.
\<close>

record APILLMManager =
  models :: "ModelType list"
  current_model :: "ModelType option"
  fallback_enabled :: bool
  api_metrics :: metrics
  model_configs :: "ModelType \<rightharpoonup> ModelConfig"
  model_priority :: "ModelType list"

text \<open>
  The world of one \<^verbatim>\<open>generate_response\<close> call: \<open>provider_generate i t prompt\<close> is what the
  provider registered for \<open>t\<close> returns or raises when it is the \<open>i\<close>-th provider invoked in
  the call; \<open>call_time i\<close> is the time measured around that invocation, \<open>total_time\<close> the
  time from the start of the call to its handler, \<open>clock\<close> the reading of \<^verbatim>\<open>time.time()\<close>
  for the time stamp.
\<close>

record api_world =
  provider_generate :: "nat \<Rightarrow> ModelType \<Rightarrow> string \<Rightarrow> exn + provider_result"
  call_time :: "nat \<Rightarrow> real"
  total_time :: real
  clock :: real

definition default_configs :: "string option \<Rightarrow> string option \<Rightarrow> ModelType \<rightharpoonup> ModelConfig" where
  "default_configs gemini_key anthropic_key =
     [API_DEEPSEEK \<mapsto>
        \<lparr>mc_model_type = API_DEEPSEEK, mc_enabled = True, mc_priority = 1,
         cost_per_1k_tokens = 0.0014, mc_max_tokens = 2048, mc_temperature = 0.7, top_p = 0.9,
         mc_api_key = None\<rparr>,
      API_GEMINI \<mapsto>
        \<lparr>mc_model_type = API_GEMINI, mc_enabled = True, mc_priority = 2,
         cost_per_1k_tokens = 0.0075, mc_max_tokens = 2048, mc_temperature = 0.7, top_p = 0.9,
         mc_api_key = gemini_key\<rparr>,
      API_CLAUDE \<mapsto>
        \<lparr>mc_model_type = API_CLAUDE, mc_enabled = True, mc_priority = 3,
         cost_per_1k_tokens = 0.0125, mc_max_tokens = 2048, mc_temperature = 0.7, top_p = 0.9,
         mc_api_key = anthropic_key\<rparr>,
      API_OPENAI \<mapsto>
        \<lparr>mc_model_type = API_OPENAI, mc_enabled = False, mc_priority = 4,
         cost_per_1k_tokens = 0.015, mc_max_tokens = 2048, mc_temperature = 0.7, top_p = 0.9,
         mc_api_key = None\<rparr>]"

definition initial_metrics :: metrics where
  "initial_metrics =
     \<lparr>total_requests = 0, mt_successful_requests = 0, mt_failed_requests = 0, total_cost = 0,
      total_tokens = 0, model_usage = Map.empty\<rparr>"

text \<open>\<^verbatim>\<open>__init__\<close>, with the two keys read from the environment.\<close>

definition new_api_manager :: "string option \<Rightarrow> string option \<Rightarrow> APILLMManager" where
  "new_api_manager gemini_key anthropic_key =
     \<lparr>models = [], current_model = None, fallback_enabled = True,
      api_metrics = initial_metrics,
      model_configs = default_configs gemini_key anthropic_key,
      model_priority = [API_DEEPSEEK, API_GEMINI, API_CLAUDE, API_OPENAI]\<rparr>"

text \<open>The loop of \<^verbatim>\<open>_select_optimal_model\<close> and the function itself.\<close>

fun first_enabled :: "APILLMManager \<Rightarrow> ModelType list \<Rightarrow> ModelType option" where
  "first_enabled m [] = None"
| "first_enabled m (t # ts) =
     (case model_configs m t of
        Some config \<Rightarrow>
          if mc_enabled config \<and> t \<in> set (models m) then Some t else first_enabled m ts
      | None \<Rightarrow> first_enabled m ts)"

definition api_select_optimal_model :: "APILLMManager \<Rightarrow> APILLMManager" where
  "api_select_optimal_model m =
     (case first_enabled m (model_priority m) of
        Some t \<Rightarrow> m\<lparr>current_model := Some t\<rparr>
      | None \<Rightarrow>
          (case models m of
             t # ts \<Rightarrow> m\<lparr>current_model := Some t\<rparr>
           | [] \<Rightarrow> m))"

text \<open>\<^verbatim>\<open>repr\<close> of a member of the enumeration, which is the text of a \<^verbatim>\<open>KeyError\<close> for it.\<close>

definition model_type_repr :: "ModelType \<Rightarrow> string" where
  "model_type_repr t =
     ''<ModelType.'' @ map (\<lambda>c. if c = CHR ''_'' then c else char_of (of_char c - (32::nat)))
                        (model_type_value t) @
     '': '' @ [CHR 0x27] @ model_type_value t @ [CHR 0x27] @ ''>''"

text \<open>
  \<^verbatim>\<open>_generate_with_model\<close> as invocation \<open>i\<close>. The five subscripts of the result are read
  in the order of the keyword arguments; a missing key raises \<^verbatim>\<open>KeyError\<close>.
\<close>

definition build_response ::
  "api_world \<Rightarrow> nat \<Rightarrow> ModelType \<Rightarrow> provider_result \<Rightarrow> exn + LLMResponse" where
  "build_response w i t result =
     (case res_content result of
        None \<Rightarrow> Inl (KeyError ([CHR 0x27] @ ''content'' @ [CHR 0x27]))
      | Some c \<Rightarrow>
     (case res_model result of
        None \<Rightarrow> Inl (KeyError ([CHR 0x27] @ ''model'' @ [CHR 0x27]))
      | Some mo \<Rightarrow>
     (case res_tokens_used result of
        None \<Rightarrow> Inl (KeyError ([CHR 0x27] @ ''tokens_used'' @ [CHR 0x27]))
      | Some tk \<Rightarrow>
     (case res_cost result of
        None \<Rightarrow> Inl (KeyError ([CHR 0x27] @ ''cost'' @ [CHR 0x27]))
      | Some co \<Rightarrow>
     (case res_provider result of
        None \<Rightarrow> Inl (KeyError ([CHR 0x27] @ ''provider'' @ [CHR 0x27]))
      | Some pr \<Rightarrow>
          Inr \<lparr>content = c, model = mo, model_type = t, tokens_used = tk, cost = co,
               response_time = call_time w i, confidence = 90, provider_name = pr,
               response_timestamp = clock w, response_metadata = Inl result\<rparr>)))))"

definition generate_with_model ::
  "api_world \<Rightarrow> APILLMManager \<Rightarrow> nat \<Rightarrow> ModelType \<Rightarrow> string \<Rightarrow> exn + LLMResponse" where
  "generate_with_model w m i t prompt =
     (case model_configs m t of
        None \<Rightarrow> Inl (KeyError (model_type_repr t))
      | Some config \<Rightarrow>
          if t \<notin> set (models m) then Inl (KeyError (model_type_repr t))
          else (case provider_generate w i t prompt of
                  Inl e \<Rightarrow> Inl e
                | Inr result \<Rightarrow> build_response w i t result))"

definition update_model_usage :: "metrics \<Rightarrow> ModelType \<Rightarrow> metrics" where
  "update_model_usage mt t =
     mt\<lparr>model_usage := (model_usage mt)(model_type_value t \<mapsto>
          (case model_usage mt (model_type_value t) of None \<Rightarrow> 0 | Some n \<Rightarrow> n) + 1)\<rparr>"

text \<open>The four metric updates after a successful generation with model \<open>t\<close>.\<close>

definition record_success :: "APILLMManager \<Rightarrow> ModelType \<Rightarrow> LLMResponse \<Rightarrow> APILLMManager" where
  "record_success m t response =
     m\<lparr>api_metrics :=
         update_model_usage
           ((api_metrics m)\<lparr>mt_successful_requests := mt_successful_requests (api_metrics m) + 1,
                            total_cost := total_cost (api_metrics m) + cost response,
                            total_tokens := total_tokens (api_metrics m) + tokens_used response\<rparr>)
           t\<rparr>"

text \<open>
  The loop of \<^verbatim>\<open>_try_fallback_models\<close> from invocation \<open>i\<close> on; after the loop the function
  raises \<^verbatim>\<open>Exception("All models failed")\<close>.
\<close>

fun try_fallback_loop ::
  "api_world \<Rightarrow> APILLMManager \<Rightarrow> nat \<Rightarrow> string \<Rightarrow> ModelType list \<Rightarrow>
   exn + LLMResponse \<times> APILLMManager" where
  "try_fallback_loop w m i prompt [] = Inl (PyException ''All models failed'')"
| "try_fallback_loop w m i prompt (t # ts) =
     (if Some t = current_model m then try_fallback_loop w m i prompt ts
      else if t \<notin> set (models m) then try_fallback_loop w m i prompt ts
      else case model_configs m t of
             None \<Rightarrow> try_fallback_loop w m i prompt ts
           | Some config \<Rightarrow>
               if \<not> mc_enabled config then try_fallback_loop w m i prompt ts
               else (case generate_with_model w m i t prompt of
                       Inr response \<Rightarrow>
                         Inr (response, record_success (m\<lparr>current_model := Some t\<rparr>) t response)
                     | Inl e \<Rightarrow> try_fallback_loop w m (Suc i) prompt ts))"

definition try_fallback_models ::
  "api_world \<Rightarrow> APILLMManager \<Rightarrow> nat \<Rightarrow> string \<Rightarrow> exn + LLMResponse \<times> APILLMManager" where
  "try_fallback_models w m i prompt = try_fallback_loop w m i prompt (model_priority m)"

text \<open>
  \<^verbatim>\<open>len(error_content.split())\<close>: the number of maximal runs of characters that are not
  white space. \<open>space_width s\<close> is the number of bytes of the white-space character that \<open>s\<close>
  starts with, and 0 when it starts with none; the white-space characters are U+0009 to
  U+000D, U+001C to U+0020, U+0085, U+00A0, U+1680, U+2000 to U+200A, U+2028, U+2029,
  U+202F, U+205F and U+3000. \<open>count_words skip in_word s\<close> passes over \<open>skip\<close> bytes first.
\<close>

definition space_width :: "string \<Rightarrow> nat" where
  "space_width s =
     (case map (of_char :: char \<Rightarrow> nat) s of
        [] \<Rightarrow> 0
      | a # rest \<Rightarrow>
          if a \<in> {9, 10, 11, 12, 13, 28, 29, 30, 31, 32} then 1
          else if a = 0xC2
          then (case rest of b # bs \<Rightarrow> if b = 0x85 \<or> b = 0xA0 then 2 else 0 | [] \<Rightarrow> 0)
          else if a = 0xE1
          then (case rest of
                  b # c # bs \<Rightarrow> if b = 0x9A \<and> c = 0x80 then 3 else 0
                | _ \<Rightarrow> 0)
          else if a = 0xE2
          then (case rest of
                  b # c # bs \<Rightarrow>
                    if b = 0x80 \<and> (0x80 \<le> c \<and> c \<le> 0x8A \<or> c = 0xA8 \<or> c = 0xA9 \<or> c = 0xAF) \<or>
                       b = 0x81 \<and> c = 0x9F
                    then 3 else 0
                | _ \<Rightarrow> 0)
          else if a = 0xE3
          then (case rest of
                  b # c # bs \<Rightarrow> if b = 0x80 \<and> c = 0x80 then 3 else 0
                | _ \<Rightarrow> 0)
          else 0)"

fun count_words :: "nat \<Rightarrow> bool \<Rightarrow> string \<Rightarrow> nat" where
  "count_words skip in_word [] = 0"
| "count_words skip in_word (c # cs) =
     (case skip of
        Suc k \<Rightarrow> count_words k in_word cs
      | 0 \<Rightarrow>
          (case space_width (c # cs) of
             Suc k \<Rightarrow> count_words k False cs
           | 0 \<Rightarrow> (if in_word then 0 else 1) + count_words 0 True cs))"

fun join :: "string \<Rightarrow> string list \<Rightarrow> string" where
  "join sep [] = []"
| "join sep [x] = x"
| "join sep (x # y # ys) = x @ sep @ join sep (y # ys)"

definition error_content :: "APILLMManager \<Rightarrow> string \<Rightarrow> string \<Rightarrow> string" where
  "error_content m prompt error =
     [CHR 0xC3, CHR 0xB0, CHR 0xC5, CHR 0xB8, CHR 0xC2, CHR 0xA4, CHR 0xE2, CHR 0x80, CHR 0x93] @
     '' reVoAgent AI Assistant (Error Recovery Mode)'' @ [CHR 0x0A, CHR 0x0A] @
     ''I apologize, but I'' @ [CHR 0x27] @
     ''m currently experiencing technical difficulties with all AI models.'' @
     [CHR 0x0A, CHR 0x0A] @
     ''Error: '' @ error @ [CHR 0x0A, CHR 0x0A] @
     ''Your prompt: '' @ [CHR 0x22] @ slice_chars 100 prompt @ ''...'' @ [CHR 0x22] @
     [CHR 0x0A, CHR 0x0A] @
     ''I'' @ [CHR 0x27] @ ''m working to restore full functionality. Please try again in a '' @
     ''moment, or contact support if the issue persists.'' @ [CHR 0x0A, CHR 0x0A] @
     ''Available models: '' @ join '', '' (map model_type_value (models m)) @ [CHR 0x0A] @
     ''Current model: '' @
     (case current_model m of None \<Rightarrow> ''None'' | Some t \<Rightarrow> model_type_value t)"

definition create_error_response ::
  "api_world \<Rightarrow> APILLMManager \<Rightarrow> string \<Rightarrow> string \<Rightarrow> real \<Rightarrow> LLMResponse" where
  "create_error_response w m prompt error rt =
     \<lparr>content = error_content m prompt error, model = ''error-recovery'',
      model_type = API_GEMINI, tokens_used = int (count_words 0 False (error_content m prompt error)),
      cost = 0, response_time = rt, confidence = 0, provider_name = ''error_recovery'',
      response_timestamp = clock w, response_metadata = Inr (error, prompt)\<rparr>"

text \<open>
  The \<^verbatim>\<open>try\<close> block of \<^verbatim>\<open>generate_response\<close>: the response and the manager, or the
  exception with the manager as it is when the exception reaches the handler.
\<close>

definition generate_response_body ::
  "api_world \<Rightarrow> APILLMManager \<Rightarrow> string \<Rightarrow> (exn \<times> APILLMManager) + (LLMResponse \<times> APILLMManager)" where
  "generate_response_body w m0 prompt =
     (let m = m0\<lparr>api_metrics := (api_metrics m0)\<lparr>total_requests := total_requests (api_metrics m0) + 1\<rparr>\<rparr>;
          fallback = (\<lambda>i. case try_fallback_models w m i prompt of
                             Inl e \<Rightarrow> Inl (e, m)
                           | Inr r \<Rightarrow> Inr r)
      in case (case current_model m of
                 None \<Rightarrow> None
               | Some t \<Rightarrow> if t \<in> set (models m) then Some t else None) of
           Some t \<Rightarrow>
             (case generate_with_model w m 0 t prompt of
                Inr response \<Rightarrow> Inr (response, record_success m t response)
              | Inl e \<Rightarrow> if fallback_enabled m then fallback 1 else Inl (e, m))
         | None \<Rightarrow> fallback 0)"

text \<open>
  \<^verbatim>\<open>generate_response\<close>: the value is \<open>Inr\<close> of what the call returns, or \<open>Inl\<close> of an
  exception that leaves it.
\<close>

definition generate_response ::
  "api_world \<Rightarrow> APILLMManager \<Rightarrow> string \<Rightarrow> exn + LLMResponse \<times> APILLMManager" where
  "generate_response w m prompt =
     (case generate_response_body w m prompt of
        Inr r \<Rightarrow> Inr r
      | Inl (e, m') \<Rightarrow>
          Inr (create_error_response w m' prompt (str_exn e) (total_time w),
               m'\<lparr>api_metrics :=
                    (api_metrics m')\<lparr>mt_failed_requests := mt_failed_requests (api_metrics m') + 1\<rparr>\<rparr>))"

text \<open>
  A world in which every provider answers with an error, and a manager with two
  initialised providers after \<^verbatim>\<open>_select_optimal_model\<close>.
\<close>

definition failing_api_world :: api_world where
  "failing_api_world =
     \<lparr>provider_generate = (\<lambda>i t prompt. Inl (PyException ''HTTP 503'')),
      call_time = (\<lambda>i. 0), total_time = 1, clock = 0\<rparr>"

definition two_model_manager :: APILLMManager where
  "two_model_manager =
     api_select_optimal_model
       ((new_api_manager (Some ''g-key'') (Some ''a-key''))\<lparr>models := [API_CLAUDE, API_GEMINI]\<rparr>)"

section \<open>\<^verbatim>\<open>engine_coordinator.py\<close>: the engine coordinator\<close>

subsection \<open>Data\<close>

datatype EngineType = PERFECT_RECALL | PARALLEL_MIND | CREATIVE

fun engine_value :: "EngineType \<Rightarrow> string" where
  "engine_value PERFECT_RECALL = ''perfect_recall''"
| "engine_value PARALLEL_MIND = ''parallel_mind''"
| "engine_value CREATIVE = ''creative''"

datatype TaskComplexity = SIMPLE | MODERATE | COMPLEX | ENTERPRISE

fun complexity_value :: "TaskComplexity \<Rightarrow> string" where
  "complexity_value SIMPLE = ''simple''"
| "complexity_value MODERATE = ''moderate''"
| "complexity_value COMPLEX = ''complex''"
| "complexity_value ENTERPRISE = ''enterprise''"

text \<open>
  The values of type \<^verbatim>\<open>Any\<close> that pass through the coordinator: the input data, the
  results of the engines, and the dictionaries built from them. \<open>PObject\<close> is an object
  given by its attributes.
\<close>

datatype pyval =
    PNone
  | PBool bool
  | PInt int
  | PFloat real
  | PStr string
  | PList "pyval list"
  | PDict "(string \<times> pyval) list"
  | PObject "(string \<times> pyval) list"

text \<open>\<^verbatim>\<open>d[k] = v\<close> on a dictionary that keeps insertion order.\<close>

fun dict_set :: "(string \<times> pyval) list \<Rightarrow> string \<Rightarrow> pyval \<Rightarrow> (string \<times> pyval) list" where
  "dict_set [] k v = [(k, v)]"
| "dict_set ((k', v') # d) k v = (if k' = k then (k, v) # d else (k', v') # dict_set d k v)"

fun type_name :: "pyval \<Rightarrow> string" where
  "type_name PNone = ''NoneType''"
| "type_name (PBool b) = ''bool''"
| "type_name (PInt n) = ''int''"
| "type_name (PFloat x) = ''float''"
| "type_name (PStr s) = ''str''"
| "type_name (PList xs) = ''list''"
| "type_name (PDict d) = ''dict''"
| "type_name (PObject attrs) = ''object''"

text \<open>
  \<^verbatim>\<open>data.get(key, default)\<close>: defined on a dictionary; on a value of another type the
  attribute is missing. An object with a \<^verbatim>\<open>get\<close> method of its own is not modelled.
\<close>

definition data_get :: "pyval \<Rightarrow> string \<Rightarrow> pyval \<Rightarrow> exn + pyval" where
  "data_get data k dflt =
     (case data of
        PDict d \<Rightarrow> Inr (case map_of d k of None \<Rightarrow> dflt | Some v \<Rightarrow> v)
      | _ \<Rightarrow> Inl (AttributeError ([CHR 0x27] @ type_name data @ [CHR 0x27] @
                 '' object has no attribute '' @ [CHR 0x27] @ ''get'' @ [CHR 0x27])))"

text \<open>\<^verbatim>\<open>hasattr(result, 'output_data')\<close> and the attribute.\<close>

definition output_data :: "pyval \<Rightarrow> pyval option" where
  "output_data r = (case r of PObject attrs \<Rightarrow> map_of attrs ''output_data'' | _ \<Rightarrow> None)"

record CoordinatedRequest =
  task_id :: string
  task_type :: string
  description :: string
  input_data :: pyval
  complexity :: TaskComplexity
  required_engines :: "EngineType list"
  coordination_strategy :: string
  timeout_seconds :: int

record EngineResponse =
  engine_type :: EngineType
  success :: bool
  result :: pyval
  execution_time_ms :: real
  metadata :: "(string \<times> pyval) list"

record coordination_summary =
  strategy_used :: string
  engines_utilized :: "string list"
  total_engines :: nat
  success_rate :: real
  avg_engine_time :: real
  complexity_handled :: string

record CoordinatedResponse =
  cr_task_id :: string
  cr_success :: bool
  primary_result :: pyval
  engine_responses :: "EngineResponse list"
  cr_coordination_summary :: coordination_summary
  total_execution_time_ms :: real

record coordination_metrics =
  total_coordinated_tasks :: int
  avg_coordination_time :: real
  engine_utilization :: "EngineType \<Rightarrow> real"
  coordination_success_rate :: real

text \<open>
  The coordinator: \<open>engines\<close> is the set of keys of \<^verbatim>\<open>self.engines\<close>, empty before
  \<^verbatim>\<open>initialize\<close> and all three types after it.
\<close>

record EngineCoordinator =
  engines :: "EngineType set"
  metrics_of :: coordination_metrics

text \<open>
  The engines and the clock. The first argument of an engine operation is the number of
  the engine invocation within the request (for the parallel strategy: the position of
  the task), so that an engine may answer differently each time:
  \<^item> \<open>retrieve_fast i query\<close> and \<open>store_context i content context_type session_id\<close>: the
    operations of the recall engine;
  \<^item> \<open>run_task i data priority\<close>: \<^verbatim>\<open>submit_task\<close> followed by \<^verbatim>\<open>get_task_result\<close> of the
    parallel engine;
  \<^item> \<open>import_solution_generator i\<close>: the exception, if any, of the import statement that
    the creative branch runs first;
  \<^item> \<open>generate_solutions i domain constraints innovation_level problem\<close>: the two argument
    objects and the call of the creative engine;
  \<^item> \<open>elapsed_ms i\<close>: the time measured around invocation \<open>i\<close>; \<open>tracked_time\<close>: the result
    of \<^verbatim>\<open>_end_request_tracking\<close>, a method of the base class;
  \<^item> \<open>synthesize_special task_type responses\<close>: the three task-specific synthesizers,
    which inspect the attributes of engine results and render them as text.
\<close>

record engine_world =
  retrieve_fast :: "nat \<Rightarrow> pyval \<Rightarrow> exn + pyval"
  store_context :: "nat \<Rightarrow> pyval \<Rightarrow> pyval \<Rightarrow> pyval \<Rightarrow> exn + pyval"
  run_task :: "nat \<Rightarrow> pyval \<Rightarrow> pyval \<Rightarrow> exn + pyval"
  import_solution_generator :: "nat \<Rightarrow> exn option"
  generate_solutions :: "nat \<Rightarrow> pyval \<Rightarrow> pyval \<Rightarrow> pyval \<Rightarrow> pyval \<Rightarrow> exn + pyval"
  elapsed_ms :: "nat \<Rightarrow> real"
  tracked_time :: real
  synthesize_special :: "string \<Rightarrow> EngineResponse list \<Rightarrow> exn + pyval"

subsection \<open>One engine\<close>

definition and_then :: "exn + 'a \<Rightarrow> ('a \<Rightarrow> exn + 'b) \<Rightarrow> exn + 'b" where
  "and_then x f = (case x of Inl e \<Rightarrow> Inl e | Inr v \<Rightarrow> f v)"

definition engine_repr :: "EngineType \<Rightarrow> string" where
  "engine_repr e =
     ''<EngineType.'' @ map (\<lambda>c. if c = CHR ''_'' then c else char_of (of_char c - (32::nat)))
                         (engine_value e) @
     '': '' @ [CHR 0x27] @ engine_value e @ [CHR 0x27] @ ''>''"

text \<open>
  \<^verbatim>\<open>_execute_single_engine\<close> as invocation \<open>i\<close>. The subscript \<^verbatim>\<open>self.engines[engine_type]\<close>
  raises \<^verbatim>\<open>KeyError\<close> for an engine that is not there; the arguments are read from the
  data in the order of the source; the recall engine with a task type other than
  \<^verbatim>\<open>"recall"\<close> and \<^verbatim>\<open>"store"\<close> falls through and returns \<^verbatim>\<open>None\<close>.
\<close>

definition execute_single_engine ::
  "engine_world \<Rightarrow> EngineCoordinator \<Rightarrow> nat \<Rightarrow> EngineType \<Rightarrow> string \<Rightarrow> pyval \<Rightarrow> exn + pyval" where
  "execute_single_engine w c i e tt data =
     (if e \<notin> engines c then Inl (KeyError (engine_repr e))
      else case e of
        PERFECT_RECALL \<Rightarrow>
          if tt = ''recall''
          then and_then (data_get data ''query'' (PStr [])) (retrieve_fast w i)
          else if tt = ''store''
          then and_then (data_get data ''content'' (PStr [])) (\<lambda>content.
               and_then (data_get data ''context_type'' (PStr ''general'')) (\<lambda>context_type.
               and_then (data_get data ''session_id'' (PStr ''default'')) (\<lambda>session_id.
                 store_context w i content context_type session_id)))
          else Inr PNone
      | PARALLEL_MIND \<Rightarrow>
          and_then (data_get data ''priority'' (PInt 5)) (run_task w i data)
      | CREATIVE \<Rightarrow>
          and_then (case import_solution_generator w i of Some ex \<Rightarrow> Inl ex | None \<Rightarrow> Inr ())
            (\<lambda>imported.
          and_then (data_get data ''domain'' (PStr ''general'')) (\<lambda>domain.
          and_then (data_get data ''constraints'' (PList [])) (\<lambda>constraints.
          and_then (data_get data ''innovation_level'' (PFloat 0.7)) (\<lambda>innovation_level.
          and_then (data_get data ''problem'' (PStr [])) (\<lambda>problem.
          and_then (data_get data ''constraints'' (PList [])) (\<lambda>constraints'.
            generate_solutions w i domain constraints innovation_level problem)))))))"

text \<open>\<^verbatim>\<open>_execute_engine_with_timing\<close>: the invocation wrapped into a response.\<close>

definition execute_engine_with_timing ::
  "engine_world \<Rightarrow> EngineCoordinator \<Rightarrow> nat \<Rightarrow> EngineType \<Rightarrow> string \<Rightarrow> pyval \<Rightarrow> EngineResponse" where
  "execute_engine_with_timing w c i e tt data =
     (case execute_single_engine w c i e tt data of
        Inr r \<Rightarrow>
          \<lparr>engine_type = e, success = True, result = r, execution_time_ms = elapsed_ms w i,
           metadata = [(''task_type'', PStr tt)]\<rparr>
      | Inl ex \<Rightarrow>
          \<lparr>engine_type = e, success = False, result = PNone, execution_time_ms = elapsed_ms w i,
           metadata = [(''error'', PStr (str_exn ex)), (''task_type'', PStr tt)]\<rparr>)"

subsection \<open>The three strategies\<close>

text \<open>
  The loop of \<^verbatim>\<open>_execute_sequential\<close> over the engines still to run, with the current
  data and the responses so far; each engine that is run appends one response, so the
  number of responses is the number of the invocation.
\<close>

fun sequential_loop ::
  "engine_world \<Rightarrow> EngineCoordinator \<Rightarrow> string \<Rightarrow> EngineType list \<Rightarrow> pyval \<Rightarrow>
   EngineResponse list \<Rightarrow> EngineResponse list" where
  "sequential_loop w c tt [] current_data responses = responses"
| "sequential_loop w c tt (e # es) current_data responses =
     (if e \<notin> engines c then sequential_loop w c tt es current_data responses
      else case execute_single_engine w c (length responses) e tt current_data of
             Inr r \<Rightarrow>
               sequential_loop w c tt es
                 (case output_data r of Some d \<Rightarrow> d | None \<Rightarrow> current_data)
                 (responses @
                  [\<lparr>engine_type = e, success = True, result = r,
                    execution_time_ms = elapsed_ms w (length responses),
                    metadata = [(''execution_order'', PInt (int (length responses) + 1))]\<rparr>])
           | Inl ex \<Rightarrow>
               sequential_loop w c tt es current_data
                 (responses @
                  [\<lparr>engine_type = e, success = False, result = PNone,
                    execution_time_ms = elapsed_ms w (length responses),
                    metadata = [(''error'', PStr (str_exn ex))]\<rparr>]))"

definition execute_sequential ::
  "engine_world \<Rightarrow> EngineCoordinator \<Rightarrow> CoordinatedRequest \<Rightarrow> EngineResponse list" where
  "execute_sequential w c request =
     sequential_loop w c (task_type request) (required_engines request) (input_data request) []"

text \<open>
  \<^verbatim>\<open>_execute_parallel\<close>: one task per required engine that is there, every task on the
  input data of the request, and the responses in the order of the tasks. A task is a call
  of \<^verbatim>\<open>_execute_engine_with_timing\<close>, which catches every \<^verbatim>\<open>Exception\<close>, so the branch of
  the source for a task that ended with one is not taken. The interleaving of the tasks is
  not modelled: each engine answers by its own entry of the world.
\<close>

definition execute_parallel ::
  "engine_world \<Rightarrow> EngineCoordinator \<Rightarrow> CoordinatedRequest \<Rightarrow> EngineResponse list" where
  "execute_parallel w c request =
     (let tasks = filter (\<lambda>e. e \<in> engines c) (required_engines request)
      in map (\<lambda>(i, e). execute_engine_with_timing w c i e (task_type request) (input_data request))
           (enumerate 0 tasks))"

text \<open>The analysis of the adaptive strategy.\<close>

record task_analysis =
  requires_memory :: bool
  requires_parallel :: bool
  requires_creativity :: bool
  complexity_score :: real
  innovation_level :: real
  processing_intensity :: real
  engine_priorities :: "(EngineType \<times> real) list"

definition mentions :: "CoordinatedRequest \<Rightarrow> string list \<Rightarrow> bool" where
  "mentions request keywords =
     list_ex (\<lambda>keyword. contains (lower (description request)) keyword \<or>
                        contains (lower (task_type request)) keyword) keywords"

definition analyze_task_for_optimal_engines :: "CoordinatedRequest \<Rightarrow> task_analysis" where
  "analyze_task_for_optimal_engines request =
     (let memory = mentions request
            [''remember'', ''recall'', ''history'', ''context'', ''previous'', ''stored'',
             ''knowledge''];
          parallel = mentions request
            [''parallel'', ''concurrent'', ''multiple'', ''batch'', ''bulk'', ''simultaneous''];
          creative = mentions request
            [''creative'', ''innovative'', ''generate'', ''design'', ''brainstorm'', ''novel'',
             ''unique''];
          priorities =
            (if memory then [(PERFECT_RECALL, 0.9)] else []) @
            (if parallel then [(PARALLEL_MIND, 0.8)] else []) @
            (if creative then [(CREATIVE, 0.7)] else [])
      in \<lparr>requires_memory = memory, requires_parallel = parallel, requires_creativity = creative,
          complexity_score =
            (case complexity request of
               ENTERPRISE \<Rightarrow> 0.9 | COMPLEX \<Rightarrow> 0.7 | MODERATE \<Rightarrow> 0.5 | SIMPLE \<Rightarrow> 0.3),
          innovation_level = (if creative then 0.3 + 0.4 else 0.3),
          processing_intensity = (if parallel then 0.4 + 0.3 else 0.4),
          engine_priorities = sort_key (\<lambda>x. - snd x) priorities\<rparr>)"

text \<open>A step of the plan; the explanatory text of a step is left out.\<close>

record plan_step =
  step_engine :: EngineType
  step_mode :: string
  enhance_next :: bool

definition has_priority :: "task_analysis \<Rightarrow> EngineType \<Rightarrow> bool" where
  "has_priority analysis e = list_ex (\<lambda>p. fst p = e) (engine_priorities analysis)"

definition create_optimal_execution_plan :: "task_analysis \<Rightarrow> plan_step list" where
  "create_optimal_execution_plan analysis =
     (if complexity_score analysis > 0.7
      then (if has_priority analysis PERFECT_RECALL
            then [\<lparr>step_engine = PERFECT_RECALL, step_mode = ''sequential'', enhance_next = True\<rparr>]
            else []) @
           (if has_priority analysis PARALLEL_MIND
            then [\<lparr>step_engine = PARALLEL_MIND, step_mode = ''sequential'', enhance_next = True\<rparr>]
            else []) @
           (if has_priority analysis CREATIVE
            then [\<lparr>step_engine = CREATIVE, step_mode = ''sequential'', enhance_next = False\<rparr>]
            else [])
      else if requires_parallel analysis \<and> requires_creativity analysis
      then (if has_priority analysis PARALLEL_MIND
            then [\<lparr>step_engine = PARALLEL_MIND, step_mode = ''parallel'', enhance_next = False\<rparr>]
            else []) @
           (if has_priority analysis CREATIVE
            then [\<lparr>step_engine = CREATIVE, step_mode = ''parallel'', enhance_next = False\<rparr>]
            else [])
      else map (\<lambda>p. \<lparr>step_engine = fst p, step_mode = ''sequential'', enhance_next = True\<rparr>)
             (engine_priorities analysis))"

definition enhance_data_for_next_engine :: "pyval \<Rightarrow> EngineResponse \<Rightarrow> pyval" where
  "enhance_data_for_next_engine current_data engine_response =
     (if \<not> success engine_response then current_data
      else case current_data of
             PDict d \<Rightarrow>
               (case engine_type engine_response of
                  PERFECT_RECALL \<Rightarrow>
                    PDict (dict_set (dict_set d ''retrieved_context'' (result engine_response))
                             ''memory_enhanced'' (PBool True))
                | PARALLEL_MIND \<Rightarrow>
                    PDict (dict_set (dict_set d ''parallel_results'' (result engine_response))
                             ''processing_enhanced'' (PBool True))
                | CREATIVE \<Rightarrow>
                    PDict (dict_set (dict_set d ''creative_insights'' (result engine_response))
                             ''innovation_enhanced'' (PBool True)))
           | _ \<Rightarrow> current_data)"

text \<open>
  The loop of \<^verbatim>\<open>_execute_adaptive\<close> over the steps of the plan. No step of a plan has the
  mode \<^verbatim>\<open>"conditional"\<close>, which is the only mode with a condition to evaluate; such a step
  is skipped here.
\<close>

fun adaptive_loop ::
  "engine_world \<Rightarrow> EngineCoordinator \<Rightarrow> CoordinatedRequest \<Rightarrow> plan_step list \<Rightarrow> pyval \<Rightarrow>
   EngineResponse list \<Rightarrow> EngineResponse list" where
  "adaptive_loop w c request [] enhanced_data responses = responses"
| "adaptive_loop w c request (step # steps) enhanced_data responses =
     (if step_mode step = ''conditional''
      then adaptive_loop w c request steps enhanced_data responses
      else if step_engine step \<in> set (required_engines request)
      then (let engine_response =
                  execute_engine_with_timing w c (length responses) (step_engine step)
                    (task_type request) enhanced_data
            in adaptive_loop w c request steps
                 (if success engine_response \<and> enhance_next step
                  then enhance_data_for_next_engine enhanced_data engine_response
                  else enhanced_data)
                 (responses @ [engine_response]))
      else adaptive_loop w c request steps enhanced_data responses)"

definition execute_adaptive ::
  "engine_world \<Rightarrow> EngineCoordinator \<Rightarrow> CoordinatedRequest \<Rightarrow> EngineResponse list" where
  "execute_adaptive w c request =
     adaptive_loop w c request
       (create_optimal_execution_plan (analyze_task_for_optimal_engines request))
       (input_data request) []"

subsection \<open>Synthesis and the coordinated task\<close>

text \<open>The dictionary comprehension of the default synthesis: a later response replaces
  an earlier one of the same engine.\<close>

fun individual_results :: "EngineResponse list \<Rightarrow> (string \<times> pyval) list \<Rightarrow> (string \<times> pyval) list" where
  "individual_results [] d = d"
| "individual_results (r # rs) d =
     individual_results rs (dict_set d (engine_value (engine_type r)) (result r))"

definition synthesize_results ::
  "engine_world \<Rightarrow> CoordinatedRequest \<Rightarrow> EngineResponse list \<Rightarrow> exn + pyval" where
  "synthesize_results w request responses =
     (case filter success responses of
        [] \<Rightarrow> Inr (PDict [(''error'', PStr ''All engines failed''),
                           (''task_id'', PStr (task_id request))])
      | first # others \<Rightarrow>
          if task_type request \<in> set [''creative_debugging'', ''comprehensive_analysis'',
                                        ''intelligent_generation'']
          then synthesize_special w (task_type request) (first # others)
          else Inr (PDict [(''synthesized_result'', PBool True),
                           (''individual_results'',
                            PDict (individual_results (first # others) [])),
                           (''primary_source'', PStr (engine_value (engine_type first)))]))"

definition update_coordination_metrics ::
  "coordination_metrics \<Rightarrow> EngineResponse list \<Rightarrow> real \<Rightarrow> bool \<Rightarrow> coordination_metrics" where
  "update_coordination_metrics mt responses total_ms ok =
     (let mt1 = mt\<lparr>total_coordinated_tasks := total_coordinated_tasks mt + 1,
                   avg_coordination_time := avg_coordination_time mt * 0.9 + total_ms * 0.1\<rparr>;
          mt2 = foldl (\<lambda>acc r. acc\<lparr>engine_utilization :=
                         (engine_utilization acc)(engine_type r :=
                            engine_utilization acc (engine_type r) * 0.9 +
                            (if success r then 1 else 0) * 0.1)\<rparr>) mt1 responses
      in mt2\<lparr>coordination_success_rate :=
               coordination_success_rate mt2 * 0.9 + (if ok then 1 else 0) * 0.1\<rparr>)"

definition select_strategy ::
  "string \<Rightarrow> engine_world \<Rightarrow> EngineCoordinator \<Rightarrow> CoordinatedRequest \<Rightarrow> EngineResponse list" where
  "select_strategy name =
     (if name = ''sequential'' then execute_sequential
      else if name = ''parallel'' then execute_parallel
      else execute_adaptive)"

text \<open>
  \<^verbatim>\<open>execute_coordinated_task\<close>: the response, or the exception that the handler raises
  again, and the coordinator afterwards. The two quotients of the summary divide by the
  number of responses and raise \<^verbatim>\<open>ZeroDivisionError\<close> when there is none; the metrics
  are updated before that.
\<close>

definition execute_coordinated_task ::
  "engine_world \<Rightarrow> EngineCoordinator \<Rightarrow> CoordinatedRequest \<Rightarrow>
   (exn + CoordinatedResponse) \<times> EngineCoordinator" where
  "execute_coordinated_task w c request =
     (let responses = select_strategy (coordination_strategy request) w c request
      in case synthesize_results w request responses of
           Inl ex \<Rightarrow> (Inl ex, c)
         | Inr primary \<Rightarrow>
             (let ok = list_ex success responses;
                  c' = c\<lparr>metrics_of :=
                          update_coordination_metrics (metrics_of c) responses (tracked_time w) ok\<rparr>
              in if responses = []
                 then (Inl (ZeroDivisionError ''division by zero''), c')
                 else (Inr \<lparr>cr_task_id = task_id request, cr_success = ok,
                            primary_result = primary, engine_responses = responses,
                            cr_coordination_summary =
                              \<lparr>strategy_used = coordination_strategy request,
                               engines_utilized =
                                 map (\<lambda>r. engine_value (engine_type r)) responses,
                               total_engines = length responses,
                               success_rate =
                                 real (length (filter success responses)) /
                                 real (length responses),
                               avg_engine_time =
                                 sum_list (map execution_time_ms responses) /
                                 real (length responses),
                               complexity_handled = complexity_value (complexity request)\<rparr>,
                            total_execution_time_ms = tracked_time w\<rparr>,
                       c')))"

subsection \<open>Derived notions and a sample request\<close>

text \<open>
  \<open>answers outcome e r\<close>: the response \<open>r\<close> is what an invocation of engine \<open>e\<close> with this
  outcome leaves behind, a success with the result or a failure with the text of the
  exception under \<^verbatim>\<open>"error"\<close>. \<open>context_after d r\<close>: the data that the sequential strategy
  hands on when it held \<open>d\<close> and got the response \<open>r\<close>. \<open>present_engines\<close>: the required
  engines that the coordinator has, in the order of the request.
\<close>

definition answers :: "exn + pyval \<Rightarrow> EngineType \<Rightarrow> EngineResponse \<Rightarrow> bool" where
  "answers outcome e r =
     (engine_type r = e \<and>
      (case outcome of
         Inr v \<Rightarrow> success r \<and> result r = v
       | Inl ex \<Rightarrow> \<not> success r \<and> result r = PNone \<and>
                   map_of (metadata r) ''error'' = Some (PStr (str_exn ex))))"

definition context_after :: "pyval \<Rightarrow> EngineResponse \<Rightarrow> pyval" where
  "context_after d r =
     (if success r then (case output_data (result r) of Some d' \<Rightarrow> d' | None \<Rightarrow> d) else d)"

definition present_engines :: "EngineCoordinator \<Rightarrow> CoordinatedRequest \<Rightarrow> EngineType list" where
  "present_engines c request = filter (\<lambda>e. e \<in> engines c) (required_engines request)"

text \<open>
  A world in which the recall engine is down and the other engines answer, a coordinator
  after \<^verbatim>\<open>initialize\<close>, and a request for the recall and the creative engine.
\<close>

definition studio_world :: engine_world where
  "studio_world =
     \<lparr>retrieve_fast = (\<lambda>i query. Inl (PyException ''index offline'')),
      store_context = (\<lambda>i content context_type session_id. Inr PNone),
      run_task = (\<lambda>i data prio. Inr (PDict [(''processed'', PBool True)])),
      import_solution_generator = (\<lambda>i. None),
      generate_solutions = (\<lambda>i domain constraints level problem. Inr (PStr ''three ideas'')),
      elapsed_ms = (\<lambda>i. 5),
      tracked_time = 12,
      synthesize_special = (\<lambda>tt responses. Inr PNone)\<rparr>"

definition ready_coordinator :: EngineCoordinator where
  "ready_coordinator =
     \<lparr>engines = {PERFECT_RECALL, PARALLEL_MIND, CREATIVE},
      metrics_of = \<lparr>total_coordinated_tasks = 0, avg_coordination_time = 0,
                    engine_utilization = (\<lambda>e. 0), coordination_success_rate = 0\<rparr>\<rparr>"

definition scenario_request :: "string \<Rightarrow> CoordinatedRequest" where
  "scenario_request strategy =
     \<lparr>task_id = ''task-1'', task_type = ''recall'', description = ''look it up'',
      input_data = PDict [(''query'', PStr ''cache bug''), (''problem'', PStr ''cache bug'')],
      complexity = MODERATE, required_engines = [PERFECT_RECALL, CREATIVE],
      coordination_strategy = strategy, timeout_seconds = 60\<rparr>"

section \<open>Properties of the fallback manager\<close>

subsection \<open>Keeping first occurrences\<close>

lemma unique_chain_set: "set (unique_chain seen xs) = set xs - seen"
  by (induction xs arbitrary: seen) auto

lemma unique_chain_distinct: "distinct (unique_chain seen xs)"
  by (induction xs arbitrary: seen) (auto simp: unique_chain_set)

lemma unique_chain_length: "length (unique_chain seen xs) \<le> length xs"
  by (induction xs arbitrary: seen) (auto intro: le_SucI)

lemma unique_chain_append:
  "unique_chain seen (xs @ ys) = unique_chain seen xs @ unique_chain (seen \<union> set xs) ys"
  by (induction xs arbitrary: seen) (auto simp: insert_absorb)

lemma unique_chain_filter:
  "unique_chain (seen \<union> extra) xs = filter (\<lambda>x. x \<notin> extra) (unique_chain seen xs)"
proof (induction xs arbitrary: seen)
  case Nil
  show ?case by simp
next
  case (Cons x xs)
  have "unique_chain (insert x (seen \<union> extra)) xs =
        filter (\<lambda>y. y \<notin> extra) (unique_chain (insert x seen) xs)"
    using Cons [of "insert x seen"] by simp
  moreover have "x \<in> extra \<Longrightarrow> unique_chain (seen \<union> extra) xs =
        filter (\<lambda>y. y \<notin> extra) (unique_chain (insert x seen) xs)"
  proof -
    assume x: "x \<in> extra"
    then have "insert x seen \<union> extra = seen \<union> extra" by auto
    with Cons [of "insert x seen"] show ?thesis by simp
  qed
  ultimately show ?case using Cons [of seen] by auto
qed

lemma unique_chain_first_occurrences: "unique_chain {} xs = rev (remdups (rev xs))"
proof (induction xs rule: rev_induct)
  case Nil
  show ?case by simp
next
  case (snoc x xs)
  have "unique_chain {} (xs @ [x]) = unique_chain {} xs @ (if x \<in> set xs then [] else [x])"
    by (simp add: unique_chain_append)
  with snoc show ?case by simp
qed

subsection \<open>Selection\<close>

lemma is_model_available_True:
  "is_model_available w m x = Inr True \<Longrightarrow>
   x \<in> set (local_models m) \<or>
   (\<exists>ms. get_available_models w = Inr ms \<and> x \<in> set ms) \<or>
   (\<exists>st. get_model_info w x = Inr (Some st) \<and> st \<noteq> ERROR)"
  by (auto simp: is_model_available_def split: if_splits sum.splits option.splits)

lemma first_available_picks:
  "first_available w m xs = Inr (Some x) \<Longrightarrow>
   \<exists>before after. xs = before @ x # after \<and>
     (\<forall>y \<in> set before. is_model_available w m y = Inr False) \<and>
     is_model_available w m x = Inr True"
proof (induction xs)
  case Nil
  then show ?case by simp
next
  case (Cons a xs)
  show ?case
  proof (cases "is_model_available w m a")
    case (Inl e)
    with Cons.prems show ?thesis by simp
  next
    case (Inr b)
    show ?thesis
    proof (cases b)
      case True
      with Inr Cons.prems have "a = x" by simp
      with Inr True have "a # xs = [] @ x # xs \<and>
          (\<forall>y \<in> set []. is_model_available w m y = Inr False) \<and>
          is_model_available w m x = Inr True" by simp
      then show ?thesis by blast
    next
      case False
      with Inr Cons.prems have "first_available w m xs = Inr (Some x)" by simp
      from Cons.IH [OF this] obtain before after where
        "xs = before @ x # after" "\<forall>y \<in> set before. is_model_available w m y = Inr False"
        "is_model_available w m x = Inr True" by blast
      with Inr False have "a # xs = (a # before) @ x # after \<and>
          (\<forall>y \<in> set (a # before). is_model_available w m y = Inr False) \<and>
          is_model_available w m x = Inr True" by simp
      then show ?thesis by blast
    qed
  qed
qed

lemma first_available_none:
  "first_available w m xs = Inr None \<Longrightarrow>
   list_all (\<lambda>y. is_model_available w m y = Inr False) xs"
  by (induction xs) (auto split: sum.splits bool.splits if_splits)

lemma content_based_routing_picks:
  "content_based_routing w m message rules = Inr (Some x) \<Longrightarrow>
   \<exists>earlier rule later. rules = earlier @ rule # later \<and>
     list_all (rule_passes_over w m message) earlier \<and>
     pattern rule \<noteq> [] \<and> re_search w (pattern rule) message = Inr True \<and>
     first_available w m (preferred_models rule) = Inr (Some x)"
proof (induction rules)
  case Nil
  then show ?case by simp
next
  case (Cons r rules)
  show ?case
  proof (cases "pattern r \<noteq> [] \<and> re_search w (pattern r) message = Inr True \<and>
                first_available w m (preferred_models r) = Inr (Some x)")
    case True
    then have "r # rules = [] @ r # rules \<and> list_all (rule_passes_over w m message) [] \<and>
        pattern r \<noteq> [] \<and> re_search w (pattern r) message = Inr True \<and>
        first_available w m (preferred_models r) = Inr (Some x)" by simp
    then show ?thesis by blast
  next
    case False
    with Cons.prems have rest: "content_based_routing w m message rules = Inr (Some x)"
      and over: "rule_passes_over w m message r"
      by (auto simp: rule_passes_over_def split: if_splits sum.splits bool.splits option.splits
          dest: first_available_none)
    from Cons.IH [OF rest] obtain earlier rule later where
      "rules = earlier @ rule # later" "list_all (rule_passes_over w m message) earlier"
      "pattern rule \<noteq> []" "re_search w (pattern rule) message = Inr True"
      "first_available w m (preferred_models rule) = Inr (Some x)" by blast
    with over have "r # rules = (r # earlier) @ rule # later \<and>
        list_all (rule_passes_over w m message) (r # earlier) \<and>
        pattern rule \<noteq> [] \<and> re_search w (pattern rule) message = Inr True \<and>
        first_available w m (preferred_models rule) = Inr (Some x)" by simp
    then show ?thesis by blast
  qed
qed

lemma content_based_routing_none:
  "content_based_routing w m message rules = Inr None \<Longrightarrow>
   list_all (rule_passes_over w m message) rules"
  by (induction rules)
     (auto simp: rule_passes_over_def split: if_splits sum.splits bool.splits option.splits
      dest: first_available_none)

lemma select_routed_cases:
  assumes "select_routed w m message c = Inr r"
  shows "r = context_get_model c \<or>
    (\<exists>x rules. r = Some x \<and> content_based m = Some rules \<and>
       content_based_routing w m message rules = Inr (Some x)) \<or>
    (\<exists>x prefs. r = Some x \<and> low_memory_mode w \<and> resource_based m = Some prefs \<and>
       (case content_based m of None \<Rightarrow> True
        | Some rules \<Rightarrow> content_based_routing w m message rules = Inr None) \<and>
       first_available w m prefs = Inr (Some x))"
  using assms
  by (auto simp: select_routed_def Let_def split: sum.splits option.splits if_splits)

text \<open>
  C3, as the code has it. \<^verbatim>\<open>select_optimal_model\<close> returns either the model of the
  request itself, which it does not check, or, with the fallback system enabled, a model
  picked by a routing rule: in the preferred models of the first content rule with a
  pattern that matches the message and with a model that passes \<^verbatim>\<open>_is_model_available\<close>,
  the first model that passes; or, when no content rule gives one and the host is low on
  memory, the first model of the low-memory list that passes. A model passes when it is a
  registered local model, a model that the bridge lists, or a model whose record in the
  model manager has a status other than \<open>ERROR\<close>.
\<close>

theorem select_optimal_model_checked_or_original:
  "select_optimal_model w m message c = context_get_model c \<or>
   (\<exists>x prefs before after.
      select_optimal_model w m message c = Some x \<and> enabled m \<and>
      ((\<exists>earlier rule later.
          content_based m = Some (earlier @ rule # later) \<and>
          list_all (rule_passes_over w m message) earlier \<and>
          pattern rule \<noteq> [] \<and> re_search w (pattern rule) message = Inr True \<and>
          prefs = preferred_models rule) \<or>
       (low_memory_mode w \<and> resource_based m = Some prefs \<and>
        (\<forall>rules. content_based m = Some rules \<longrightarrow>
           list_all (rule_passes_over w m message) rules))) \<and>
      prefs = before @ x # after \<and>
      (\<forall>y \<in> set before. is_model_available w m y = Inr False) \<and>
      is_model_available w m x = Inr True \<and>
      (x \<in> set (local_models m) \<or>
       (\<exists>ms. get_available_models w = Inr ms \<and> x \<in> set ms) \<or>
       (\<exists>st. get_model_info w x = Inr (Some st) \<and> st \<noteq> ERROR)))"
proof (cases "enabled m")
  case False
  then show ?thesis by (simp add: select_optimal_model_def)
next
  case True
  show ?thesis
  proof (cases "select_routed w m message c")
    case (Inl e)
    with True show ?thesis by (simp add: select_optimal_model_def)
  next
    case (Inr r)
    with True have sel: "select_optimal_model w m message c = r"
      by (simp add: select_optimal_model_def)
    from select_routed_cases [OF Inr]
    consider (original) "r = context_get_model c"
      | (content) x rules where "r = Some x" "content_based m = Some rules"
          "content_based_routing w m message rules = Inr (Some x)"
      | (memory) x prefs where "r = Some x" "low_memory_mode w" "resource_based m = Some prefs"
          "case content_based m of None \<Rightarrow> True
           | Some rules \<Rightarrow> content_based_routing w m message rules = Inr None"
          "first_available w m prefs = Inr (Some x)"
      by blast
    then show ?thesis
    proof cases
      case original
      with sel show ?thesis by simp
    next
      case content
      from content_based_routing_picks [OF content(3)] obtain earlier rule later where
        r: "rules = earlier @ rule # later" "list_all (rule_passes_over w m message) earlier"
          "pattern rule \<noteq> []" "re_search w (pattern rule) message = Inr True"
          "first_available w m (preferred_models rule) = Inr (Some x)" by blast
      from first_available_picks [OF r(5)] obtain before after where
        p: "preferred_models rule = before @ x # after"
          "\<forall>y \<in> set before. is_model_available w m y = Inr False"
          "is_model_available w m x = Inr True" by blast
      have "select_optimal_model w m message c = Some x \<and> enabled m \<and>
        ((\<exists>earlier rule' later.
            content_based m = Some (earlier @ rule' # later) \<and>
            list_all (rule_passes_over w m message) earlier \<and>
            pattern rule' \<noteq> [] \<and> re_search w (pattern rule') message = Inr True \<and>
            preferred_models rule = preferred_models rule') \<or>
         (low_memory_mode w \<and> resource_based m = Some (preferred_models rule) \<and>
          (\<forall>rules. content_based m = Some rules \<longrightarrow>
             list_all (rule_passes_over w m message) rules))) \<and>
        preferred_models rule = before @ x # after \<and>
        (\<forall>y \<in> set before. is_model_available w m y = Inr False) \<and>
        is_model_available w m x = Inr True \<and>
        (x \<in> set (local_models m) \<or>
         (\<exists>ms. get_available_models w = Inr ms \<and> x \<in> set ms) \<or>
         (\<exists>st. get_model_info w x = Inr (Some st) \<and> st \<noteq> ERROR))"
        using sel True content(1,2) r(1-4) p is_model_available_True [OF p(3)] by blast
      then show ?thesis by blast
    next
      case memory
      from first_available_picks [OF memory(5)] obtain before after where
        p: "prefs = before @ x # after"
          "\<forall>y \<in> set before. is_model_available w m y = Inr False"
          "is_model_available w m x = Inr True" by blast
      have over: "\<forall>rules. content_based m = Some rules \<longrightarrow>
             list_all (rule_passes_over w m message) rules"
        using memory(4) by (auto dest: content_based_routing_none)
      have "select_optimal_model w m message c = Some x \<and> enabled m \<and>
        ((\<exists>earlier rule later.
            content_based m = Some (earlier @ rule # later) \<and>
            list_all (rule_passes_over w m message) earlier \<and>
            pattern rule \<noteq> [] \<and> re_search w (pattern rule) message = Inr True \<and>
            prefs = preferred_models rule) \<or>
         (low_memory_mode w \<and> resource_based m = Some prefs \<and>
          (\<forall>rules. content_based m = Some rules \<longrightarrow>
             list_all (rule_passes_over w m message) rules))) \<and>
        prefs = before @ x # after \<and>
        (\<forall>y \<in> set before. is_model_available w m y = Inr False) \<and>
        is_model_available w m x = Inr True \<and>
        (x \<in> set (local_models m) \<or>
         (\<exists>ms. get_available_models w = Inr ms \<and> x \<in> set ms) \<or>
         (\<exists>st. get_model_info w x = Inr (Some st) \<and> st \<noteq> ERROR))"
        using sel True memory(1-3) over p is_model_available_True [OF p(3)] by blast
      then show ?thesis by blast
    qed
  qed
qed

theorem select_optimal_model_checked_or_original_witness:
  "select_optimal_model matching_world routing_manager ''write code'' (Some (Some ''gpt-4'')) =
     Some ''local-b'' \<and>
   is_model_available matching_world routing_manager ''codellama'' = Inr False \<and>
   is_model_available matching_world routing_manager ''local-b'' = Inr True"
proof -
  have sel: "select_optimal_model matching_world routing_manager ''write code''
               (Some (Some ''gpt-4'')) = Some ''local-b''"
    by (simp add: select_optimal_model_def select_routed_def is_model_available_def
        get_available_models_def routing_manager_def two_local_manager_def
        api_only_manager_def matching_world_def quiet_world_def)
  have c: "Some ''local-b'' \<noteq> context_get_model (Some (Some ''gpt-4''))"
    by (simp add: context_get_model_def)
  have prefs: "content_based routing_manager =
      Some [\<lparr>pattern = ''code'', preferred_models = [''codellama'', ''local-b'']\<rparr>]"
    "resource_based routing_manager = None"
    by (simp_all add: routing_manager_def two_local_manager_def api_only_manager_def)
  from select_optimal_model_checked_or_original
    [of matching_world routing_manager "''write code''" "Some (Some ''gpt-4'')"] sel c
  obtain prefs' before after earlier rule later where
    h: "content_based routing_manager = Some (earlier @ rule # later)"
       "prefs' = preferred_models rule" "prefs' = before @ ''local-b'' # after"
       "\<forall>y \<in> set before. is_model_available matching_world routing_manager y = Inr False"
       "is_model_available matching_world routing_manager ''local-b'' = Inr True"
    unfolding prefs(2) by auto
  from h(1) prefs(1) have "earlier = [] \<and>
      rule = \<lparr>pattern = ''code'', preferred_models = [''codellama'', ''local-b'']\<rparr>"
    by (cases earlier) auto
  with h(2,3) have "[''codellama'', ''local-b''] = before @ ''local-b'' # after" by simp
  then have "before = [''codellama'']"
    by (cases before) (auto simp: Cons_eq_append_conv)
  with h(4) have "is_model_available matching_world routing_manager ''codellama'' = Inr False"
    by simp
  with sel h(5) show ?thesis by blast
qed

text \<open>
  C3 as stated fails: with no routing rule the requested model comes back unchecked,
  here a model that the model manager holds in status \<open>ERROR\<close>.
\<close>

theorem select_returns_unavailable_original:
  "enabled api_only_manager \<and>
   select_optimal_model quiet_world api_only_manager ''hello'' (Some (Some ''broken'')) = Some ''broken'' \<and>
   get_model_info quiet_world ''broken'' = Inr (Some ERROR) \<and>
   is_model_available quiet_world api_only_manager ''broken'' = Inr False"
  by (simp add: select_optimal_model_def select_routed_def context_get_model_def
      is_model_available_def get_available_models_def quiet_world_def api_only_manager_def)

subsection \<open>The loop over the chain and the handler\<close>

lemma try_fallbacks_prefix: "prefix (fst (try_fallbacks w m message i chain)) chain"
proof (induction chain arbitrary: i)
  case Nil
  show ?case by simp
next
  case (Cons fb chain)
  show ?case using Cons [of "Suc i"]
    by (cases "try_fallbacks w m message (Suc i) chain") (simp split: sum.splits)
qed



lemma local_never_fails:
  "primary \<in> Some ` set (local_models m) \<Longrightarrow> \<exists>r. try_generate_with_model w m i message primary = Inr r"
  by (auto simp: try_generate_with_model_def)







subsection \<open>What a call returns\<close>


lemma quiet_try_generate:
  "try_generate_with_model quiet_world api_only_manager j message primary =
     Inl (if primary = Some ''deepseek-r1''
          then TimeoutError ''CPU-optimized model timed out after 30s''
          else TimeoutError ''API model timed out after 30s'')"
  by (simp add: try_generate_with_model_def quiet_world_def api_only_manager_def
      cpu_timed_out_def api_timed_out_def)

lemma api_only_chain:
  "get_fallback_chain api_only_manager (Some ''llama'') = [''gpt-4'', ''deepseek-r1'']"
  by (simp add: get_fallback_chain_def api_only_manager_def get_model_name_def)

lemma api_only_select:
  "select_optimal_model quiet_world api_only_manager message (Some model0) = model0"
  by (simp add: select_optimal_model_def select_routed_def context_get_model_def
      quiet_world_def api_only_manager_def split: option.splits)

lemma api_only_facts:
  "enabled api_only_manager" "configured_fallbacks api_only_manager = 2"
  "persistent_failure_strategy api_only_manager = ''degrade''"
  by (simp_all add: api_only_manager_def configured_fallbacks_def)

lemma api_only_chain_default:
  "get_fallback_chain api_only_manager (Some ''deepseek-r1'') = [''gpt-4'', ''deepseek-r1'']"
  by (simp add: get_fallback_chain_def api_only_manager_def get_model_name_def)





subsection \<open>The models that one call invokes\<close>

lemma get_fallback_chain_distinct: "distinct (get_fallback_chain m original)"
  by (simp add: get_fallback_chain_def Let_def unique_chain_distinct)

lemma get_fallback_chain_length:
  "length (get_fallback_chain m original) \<le> configured_fallbacks m"
proof -
  have a: "length (filter P xs) \<le> length xs" for P and xs :: "string list" by simp
  show ?thesis
    unfolding get_fallback_chain_def Let_def configured_fallbacks_def
    by (rule order_trans [OF unique_chain_length])
       (auto split: option.splits intro: order_trans [OF a] simp: add_le_mono le_SucI)
qed

lemma get_fallback_chain_excludes_original:
  assumes "original \<notin> Some ` set (local_models m)" and "original \<noteq> Some ''deepseek-r1''"
  shows "original \<notin> Some ` set (get_fallback_chain m original)"
  using assms
  by (auto simp: get_fallback_chain_def Let_def unique_chain_set split: option.splits if_splits)

lemma invoked_handle_primary_failure:
  "\<exists>tried. invoked (handle_primary_failure w m message primary chain e0) = primary # map Some tried \<and>
           prefix tried chain"
  using try_fallbacks_prefix [of w m message 1 chain]
  by (cases "try_fallbacks w m message 1 chain")
     (auto simp: handle_primary_failure_def Let_def split: option.splits)

text \<open>
  C2, as the code has it. When the fallback system is enabled and the primary model
  fails, the call invokes, after the primary model, an initial stretch of the fallback
  chain: pairwise distinct models, at most as many as there are cached API fallbacks and
  registered local models, plus one for \<^verbatim>\<open>"deepseek-r1"\<close>; whether a model is available
  plays no part. A primary model other than \<^verbatim>\<open>"deepseek-r1"\<close> is not among them.
\<close>

theorem fallback_attempts_distinct:
  assumes "enabled m"
    and "primary = select_optimal_model w m message (Some model0)"
    and "try_generate_with_model w m 0 message primary = Inl e0"
  shows "\<exists>tried. invoked (generate_with_fallback w m message model0) = primary # map Some tried \<and>
           prefix tried (get_fallback_chain m primary) \<and>
           distinct tried \<and>
           length tried \<le> configured_fallbacks m \<and>
           (primary \<noteq> Some ''deepseek-r1'' \<longrightarrow> primary \<notin> Some ` set tried)"
proof -
  let ?chain = "get_fallback_chain m primary"
  have g: "generate_with_fallback w m message model0 =
           handle_primary_failure w m message primary ?chain e0"
    using assms by (simp add: generate_with_fallback_def Let_def)
  obtain tried where t: "invoked (handle_primary_failure w m message primary ?chain e0) =
      primary # map Some tried" "prefix tried ?chain"
    using invoked_handle_primary_failure by blast
  have nonlocal: "primary \<notin> Some ` set (local_models m)"
    using local_never_fails [of primary m w 0 message] assms(3) by auto
  have d: "distinct tried"
    using t(2) get_fallback_chain_distinct [of m primary] by (auto simp: prefix_def)
  have l: "length tried \<le> configured_fallbacks m"
    using prefix_length_le [OF t(2)] get_fallback_chain_length [of m primary] by simp
  have s: "set tried \<subseteq> set ?chain" using t(2) by (auto simp: prefix_def)
  have e: "primary \<noteq> Some ''deepseek-r1'' \<longrightarrow> primary \<notin> Some ` set tried"
    using get_fallback_chain_excludes_original [OF nonlocal] s by blast
  from t d l e show ?thesis unfolding g by blast
qed

theorem fallback_attempts_distinct_witness:
  "\<exists>tried. invoked (generate_with_fallback quiet_world api_only_manager ''hello'' (Some ''llama'')) =
             Some ''llama'' # map Some tried \<and>
           prefix tried [''gpt-4'', ''deepseek-r1''] \<and> distinct tried \<and> length tried \<le> 2 \<and>
           Some ''llama'' \<notin> Some ` set tried"
  using fallback_attempts_distinct
    [of api_only_manager "Some ''llama''" quiet_world "''hello''" "Some ''llama''"
        "TimeoutError ''API model timed out after 30s''"]
  by (simp add: api_only_select quiet_try_generate api_only_chain api_only_facts)

text \<open>
  C2 as stated fails: no other backend is available, yet two fallback models are
  invoked.
\<close>

theorem fallback_tries_unavailable_backends:
  "enabled api_only_manager \<and>
   invoked (generate_with_fallback quiet_world api_only_manager ''hello'' (Some ''llama'')) =
     [Some ''llama'', Some ''gpt-4'', Some ''deepseek-r1''] \<and>
   is_model_available quiet_world api_only_manager ''gpt-4'' = Inr False \<and>
   is_model_available quiet_world api_only_manager ''deepseek-r1'' = Inr False"
proof -
  have "is_model_available quiet_world api_only_manager ''gpt-4'' = Inr False"
    "is_model_available quiet_world api_only_manager ''deepseek-r1'' = Inr False"
    by (simp_all add: is_model_available_def get_available_models_def quiet_world_def
        api_only_manager_def)
  moreover have "invoked (generate_with_fallback quiet_world api_only_manager ''hello'' (Some ''llama'')) =
     [Some ''llama'', Some ''gpt-4'', Some ''deepseek-r1'']"
    by (simp add: generate_with_fallback_def handle_primary_failure_def Let_def api_only_select
        quiet_try_generate api_only_chain api_only_facts)
  ultimately show ?thesis by (simp add: api_only_facts)
qed

text \<open>
  The entry \<^verbatim>\<open>"deepseek-r1"\<close> is appended to every chain without the comparison with the
  original model that the other entries get, so a failed primary \<^verbatim>\<open>"deepseek-r1"\<close> is
  invoked a second time.
\<close>

lemma default_model_invoked_twice:
  "invoked (generate_with_fallback quiet_world api_only_manager ''hello'' (Some ''deepseek-r1'')) =
     [Some ''deepseek-r1'', Some ''gpt-4'', Some ''deepseek-r1'']"
  by (simp add: generate_with_fallback_def handle_primary_failure_def Let_def api_only_select
        quiet_try_generate api_only_chain_default api_only_facts)

subsection \<open>The shape of the chain\<close>

lemma filter_primary:
  "filter P (case x of None \<Rightarrow> [] | Some p \<Rightarrow> [f p]) =
   (case x of None \<Rightarrow> [] | Some p \<Rightarrow> if P (f p) then [f p] else [])"
  by (simp split: option.splits)

lemma first_occurrences_distinct: "distinct xs \<Longrightarrow> rev (remdups (rev xs)) = xs"
  by (simp add: distinct_remdups_id)

lemma get_fallback_chain_raw:
  "get_fallback_chain m original =
     unique_chain {} (chain_api_part m original @ chain_local_part m original @ [''deepseek-r1''])"
  by (simp add: get_fallback_chain_def Let_def api_fallback_names_def filter_primary
      chain_api_part_def chain_local_part_def)

lemma get_fallback_chain_parts:
  "get_fallback_chain m original =
     rev (remdups (rev (chain_api_part m original))) @
     filter (\<lambda>x. x \<notin> set (chain_api_part m original))
       (rev (remdups (rev (chain_local_part m original)))) @
     (if ''deepseek-r1'' \<in> set (chain_api_part m original) \<union> set (chain_local_part m original)
      then [] else [''deepseek-r1''])"
proof -
  let ?a = "chain_api_part m original" and ?l = "chain_local_part m original"
  have "unique_chain {} (?a @ ?l @ [''deepseek-r1'']) =
        unique_chain {} ?a @ unique_chain (set ?a) ?l @
        unique_chain (set ?a \<union> set ?l) [''deepseek-r1'']"
    by (simp add: unique_chain_append)
  moreover have "unique_chain (set ?a) ?l = filter (\<lambda>x. x \<notin> set ?a) (unique_chain {} ?l)"
    using unique_chain_filter [of "{}" "set ?a" ?l] by simp
  ultimately show ?thesis
    by (simp add: get_fallback_chain_raw unique_chain_first_occurrences)
qed

lemma initialize_secondary:
  "cfg_secondary cfg = Some ps \<Longrightarrow>
   api_secondary (initialize_api_fallbacks cfg m0) = sort_key get_priority (filter get_enabled ps)"
  by (simp add: initialize_api_fallbacks_def Let_def split: option.splits)

lemma initialize_primary:
  "cfg_primary cfg = Some p \<Longrightarrow> get_enabled p \<Longrightarrow>
   api_primary (initialize_api_fallbacks cfg m0) = Some p"
  by (simp add: initialize_api_fallbacks_def Let_def split: option.splits)

lemma initialize_local:
  "local_models (initialize_api_fallbacks cfg m0) = local_models m0"
  by (simp add: initialize_api_fallbacks_def Let_def split: option.splits)

text \<open>
  C8, as the code has it. The chain lists, each name at its first occurrence only, the
  cached API fallbacks, then the registered local models in the order of registration,
  then \<^verbatim>\<open>"deepseek-r1"\<close>. For a local original model all API fallbacks and the other local
  models are listed; for any other original model the API fallbacks of another name and
  all local models. The API fallbacks come first for either kind of original model, and
  availability is not consulted. The API fallbacks that \<^verbatim>\<open>initialize\<close> caches are the
  enabled primary provider followed by the enabled secondary providers in ascending
  priority.
\<close>

theorem fallback_chain_structure:
  "get_fallback_chain m original =
     rev (remdups (rev (chain_api_part m original))) @
     filter (\<lambda>x. x \<notin> set (chain_api_part m original))
       (rev (remdups (rev (chain_local_part m original)))) @
     (if ''deepseek-r1'' \<in> set (chain_api_part m original) \<union> set (chain_local_part m original)
      then [] else [''deepseek-r1'']) \<and>
   distinct (get_fallback_chain m original) \<and>
   (distinct (local_models m) \<longrightarrow>
      rev (remdups (rev (chain_local_part m original))) = chain_local_part m original) \<and>
   (cfg_primary cfg = Some p \<and> get_enabled p \<and> cfg_secondary cfg = Some ps \<longrightarrow>
      api_fallback_names (initialize_api_fallbacks cfg m0) =
        get_model_name p # map get_model_name (sort_key get_priority (filter get_enabled ps)) \<and>
      sorted (map get_priority (sort_key get_priority (filter get_enabled ps))) \<and>
      local_models (initialize_api_fallbacks cfg m0) = local_models m0)"
proof (intro conjI impI)
  show "get_fallback_chain m original =
     rev (remdups (rev (chain_api_part m original))) @
     filter (\<lambda>x. x \<notin> set (chain_api_part m original))
       (rev (remdups (rev (chain_local_part m original)))) @
     (if ''deepseek-r1'' \<in> set (chain_api_part m original) \<union> set (chain_local_part m original)
      then [] else [''deepseek-r1''])"
    by (rule get_fallback_chain_parts)
  show "distinct (get_fallback_chain m original)"
    by (rule get_fallback_chain_distinct)
  show "rev (remdups (rev (chain_local_part m original))) = chain_local_part m original"
    if "distinct (local_models m)"
    using that by (intro first_occurrences_distinct) (simp add: chain_local_part_def)
next
  assume a: "cfg_primary cfg = Some p \<and> get_enabled p \<and> cfg_secondary cfg = Some ps"
  then show "api_fallback_names (initialize_api_fallbacks cfg m0) =
        get_model_name p # map get_model_name (sort_key get_priority (filter get_enabled ps))"
    by (simp add: api_fallback_names_def initialize_primary initialize_secondary)
  show "sorted (map get_priority (sort_key get_priority (filter get_enabled ps)))"
    by (rule sorted_sort_key)
  show "local_models (initialize_api_fallbacks cfg m0) = local_models m0"
    by (rule initialize_local)
qed

text \<open>
  C8 as stated fails: for a local original model the chain starts with an API model, not
  with the other local model, and that API model is not available.
\<close>

theorem fallback_chain_local_original_api_first:
  "local_models two_local_manager = [''local-a'', ''local-b''] \<and>
   get_fallback_chain two_local_manager (Some ''local-a'') = [''gpt-4'', ''local-b'', ''deepseek-r1''] \<and>
   is_model_available quiet_world two_local_manager ''gpt-4'' = Inr False"
  by (simp add: two_local_manager_def api_only_manager_def get_fallback_chain_def
      get_model_name_def is_model_available_def get_available_models_def quiet_world_def)

theorem fallback_chain_structure_witness:
  "get_fallback_chain (initialize_api_fallbacks sample_config two_local_manager) (Some ''gemini'') =
     [''gpt-4'', ''claude-3'', ''local-a'', ''local-b'', ''deepseek-r1''] \<and>
   get_fallback_chain (initialize_api_fallbacks sample_config two_local_manager) (Some ''local-a'') =
     [''gpt-4'', ''gemini'', ''claude-3'', ''local-b'', ''deepseek-r1'']"
proof -
  let ?m = "initialize_api_fallbacks sample_config two_local_manager"
  let ?p = "\<lparr>p_model_name = Some ''gpt-4'', p_priority = None, p_enabled = Some True\<rparr>"
  let ?ps = "[\<lparr>p_model_name = Some ''claude-3'', p_priority = Some 2, p_enabled = Some True\<rparr>,
         \<lparr>p_model_name = Some ''gemini'', p_priority = Some 1, p_enabled = Some True\<rparr>,
         \<lparr>p_model_name = Some ''mistral'', p_priority = Some 0, p_enabled = None\<rparr>]"
  have cfg: "cfg_primary sample_config = Some ?p \<and> get_enabled ?p \<and>
      cfg_secondary sample_config = Some ?ps"
    by (simp add: sample_config_def get_enabled_def)
  have loc: "local_models two_local_manager = [''local-a'', ''local-b'']"
    by (simp add: two_local_manager_def api_only_manager_def)
  have sorted_names: "get_model_name ?p # map get_model_name (sort_key get_priority (filter get_enabled ?ps)) =
      [''gpt-4'', ''gemini'', ''claude-3'']"
    by (simp add: get_enabled_def get_priority_def get_model_name_def)
  note th1 = fallback_chain_structure [of ?m "Some ''gemini''" sample_config ?p ?ps two_local_manager]
  note th2 = fallback_chain_structure [of ?m "Some ''local-a''" sample_config ?p ?ps two_local_manager]
  from th1 cfg have names: "api_fallback_names ?m = [''gpt-4'', ''gemini'', ''claude-3'']"
    and locals: "local_models ?m = [''local-a'', ''local-b'']"
    by (simp_all only: sorted_names loc)
  have parts1: "chain_api_part ?m (Some ''gemini'') = [''gpt-4'', ''claude-3'']"
    "chain_local_part ?m (Some ''gemini'') = [''local-a'', ''local-b'']"
    by (simp_all add: chain_api_part_def chain_local_part_def names locals)
  have parts2: "chain_api_part ?m (Some ''local-a'') = [''gpt-4'', ''gemini'', ''claude-3'']"
    "chain_local_part ?m (Some ''local-a'') = [''local-b'']"
    by (simp_all add: chain_api_part_def chain_local_part_def names locals)
  from th1 have "get_fallback_chain ?m (Some ''gemini'') =
     [''gpt-4'', ''claude-3'', ''local-a'', ''local-b'', ''deepseek-r1'']"
    unfolding parts1 by simp
  moreover from th2 have "get_fallback_chain ?m (Some ''local-a'') =
     [''gpt-4'', ''gemini'', ''claude-3'', ''local-b'', ''deepseek-r1'']"
    unfolding parts2 by simp
  ultimately show ?thesis by (rule conjI)
qed

section \<open>Properties of the provider selection\<close>

lemma first_usable_Some:
  "first_usable hw xs = Some p \<Longrightarrow> \<exists>c. (p, c) \<in> set xs \<and> can_use_provider hw c"
  by (induction xs) (auto split: if_splits)

lemma first_usable_None:
  "first_usable hw xs = None \<Longrightarrow> (p, c) \<in> set xs \<Longrightarrow> \<not> can_use_provider hw c"
  by (induction xs) (auto split: if_splits)

lemma first_usable_least:
  "sorted (map (\<lambda>x. priority (snd x)) xs) \<Longrightarrow> first_usable hw xs = Some p \<Longrightarrow>
   \<exists>c. (p, c) \<in> set xs \<and> can_use_provider hw c \<and>
       (\<forall>(q, d) \<in> set xs. can_use_provider hw d \<longrightarrow> priority c \<le> priority d)"
proof (induction xs)
  case Nil
  then show ?case by simp
next
  case (Cons x xs)
  obtain q d where x: "x = (q, d)" by (cases x)
  show ?case
  proof (cases "can_use_provider hw d")
    case True
    with Cons.prems x have "p = q" by simp
    moreover have "\<forall>(q', d') \<in> set (x # xs). priority d \<le> priority d'"
      using Cons.prems(1) x by auto
    ultimately show ?thesis using True x by auto
  next
    case False
    with Cons.prems x have "first_usable hw xs = Some p" by simp
    moreover have "sorted (map (\<lambda>x. priority (snd x)) xs)" using Cons.prems(1) by simp
    ultimately obtain c where c: "(p, c) \<in> set xs" "can_use_provider hw c"
      "\<forall>(q, d) \<in> set xs. can_use_provider hw d \<longrightarrow> priority c \<le> priority d"
      using Cons.IH by blast
    with False x show ?thesis by auto
  qed
qed

lemma select_preferred:
  "preferred_provider m = Some pref \<Longrightarrow> current_provider (select_best_provider m) = Some pref"
  by (auto simp: select_best_provider_def preferred_provider_def split: option.splits if_splits)

lemma preferred_usable:
  "preferred_provider m = Some pref \<Longrightarrow>
   \<exists>c. (pref, c) \<in> set (available_providers m) \<and> can_use_provider (hardware_profile m) c"
  by (auto simp: preferred_provider_def split: option.splits if_splits dest: map_of_SomeD)

lemma select_scan:
  "preferred_provider m = None \<Longrightarrow>
   current_provider (select_best_provider m) =
     Some (case first_usable (hardware_profile m)
                 (sort_key (\<lambda>x. priority (snd x)) (available_providers m)) of
             Some p \<Rightarrow> p | None \<Rightarrow> FALLBACK)"
  by (auto simp: select_best_provider_def preferred_provider_def Let_def split: option.splits if_splits)

lemma sorted_providers:
  "sorted (map (\<lambda>x. priority (snd x)) (sort_key (\<lambda>x. priority (snd x)) xs))"
  by (rule sorted_sort_key)

text \<open>
  C4, as the code has it. A registered user preference that passes the check is selected
  whatever its priority. Without one, whenever some registered provider passes the check,
  the selected provider is registered, passes the check, and no provider that passes the
  check has a lower priority value.
\<close>

theorem select_best_provider_lowest_priority:
  "(preferred_provider m = Some pref \<longrightarrow> current_provider (select_best_provider m) = Some pref) \<and>
   (preferred_provider m = None \<and> (a, ca) \<in> set (available_providers m) \<and>
    can_use_provider (hardware_profile m) ca \<longrightarrow>
      (\<exists>p c. current_provider (select_best_provider m) = Some p \<and>
             (p, c) \<in> set (available_providers m) \<and>
             can_use_provider (hardware_profile m) c \<and>
             priority c \<le> priority ca))"
proof (intro conjI impI)
  assume "preferred_provider m = Some pref"
  then show "current_provider (select_best_provider m) = Some pref" by (rule select_preferred)
next
  let ?hw = "hardware_profile m"
  let ?xs = "sort_key (\<lambda>x. priority (snd x)) (available_providers m)"
  assume h: "preferred_provider m = None \<and> (a, ca) \<in> set (available_providers m) \<and>
    can_use_provider ?hw ca"
  then have mem: "(a, ca) \<in> set ?xs" by simp
  have "first_usable ?hw ?xs \<noteq> None"
    using first_usable_None [of ?hw ?xs a ca] mem h by blast
  then obtain p where p: "first_usable ?hw ?xs = Some p" by blast
  from first_usable_least [OF sorted_providers p]
  obtain c where c: "(p, c) \<in> set ?xs" "can_use_provider ?hw c"
    "\<forall>(q, d) \<in> set ?xs. can_use_provider ?hw d \<longrightarrow> priority c \<le> priority d"
    by blast
  from c(3) mem h have "priority c \<le> priority ca" by blast
  moreover have "current_provider (select_best_provider m) = Some p"
    using select_scan [of m] h p by simp
  moreover have "(p, c) \<in> set (available_providers m)" using c(1) by simp
  ultimately show "\<exists>p c. current_provider (select_best_provider m) = Some p \<and>
             (p, c) \<in> set (available_providers m) \<and>
             can_use_provider ?hw c \<and> priority c \<le> priority ca"
    using c(2) by blast
qed

text \<open>
  C5, as the code has it. The selected provider is registered and passes the check, so it
  does not need a GPU that the host lacks and does not need more memory than the host
  has; or else it is \<open>FALLBACK\<close>, taken as the last resort without any check when no
  registered provider passes.
\<close>

theorem select_best_provider_hardware:
  "\<exists>p. current_provider (select_best_provider m) = Some p \<and>
       ((\<exists>c. (p, c) \<in> set (available_providers m) \<and>
             can_use_provider (hardware_profile m) c \<and>
             \<not> (requires_gpu c \<and> \<not> has_gpu (hardware_profile m)) \<and>
             min_ram_gb c \<le> ram_gb (hardware_profile m)) \<or>
        (p = FALLBACK \<and> preferred_provider m = None \<and>
         (\<forall>(q, d) \<in> set (available_providers m). \<not> can_use_provider (hardware_profile m) d)))"
proof -
  let ?hw = "hardware_profile m"
  let ?xs = "sort_key (\<lambda>x. priority (snd x)) (available_providers m)"
  have hw: "can_use_provider ?hw c \<Longrightarrow>
      \<not> (requires_gpu c \<and> \<not> has_gpu ?hw) \<and> min_ram_gb c \<le> ram_gb ?hw" for c
    by (auto simp: can_use_provider_def split: if_splits)
  show ?thesis
  proof (cases "preferred_provider m")
    case (Some pref)
    from preferred_usable [OF Some] obtain c where
      "(pref, c) \<in> set (available_providers m)" "can_use_provider ?hw c" by blast
    with select_preferred [OF Some] hw [of c] show ?thesis by blast
  next
    case None
    show ?thesis
    proof (cases "first_usable ?hw ?xs")
      case (Some p)
      from first_usable_Some [OF Some] obtain c where
        c: "(p, c) \<in> set (available_providers m)" "can_use_provider ?hw c" by auto
      have "current_provider (select_best_provider m) = Some p"
        using select_scan [OF None] Some by simp
      with c hw [of c] show ?thesis by blast
    next
      case n: None
      have "current_provider (select_best_provider m) = Some FALLBACK"
        using select_scan [OF None] n by simp
      moreover have "\<forall>(q, d) \<in> set (available_providers m). \<not> can_use_provider ?hw d"
        using first_usable_None [OF n] by auto
      ultimately show ?thesis using None by blast
    qed
  qed
qed

lemma laptop_summary:
  "provider_summary laptop_manager =
     [(DEEPSEEK_LOCAL, 1, 4, True), (DEEPSEEK_API, 2, 4, True), (OPENAI_API, 3, 4, False),
      (ANTHROPIC_API, 4, 4, False), (GEMINI_API, 5, 4, False), (FALLBACK, 10, 4, True)]"
  by (simp add: provider_summary_def laptop_manager_def new_manager_def initialize_providers_def
      analyze_hardware_def can_run_local_llm_check_def get_recommended_model_size_def
      default_config_def can_use_provider_def no_api_key_def)

lemmas host_defs = laptop_manager_def small_host_manager_def new_manager_def
  initialize_providers_def analyze_hardware_def can_run_local_llm_check_def
  get_recommended_model_size_def default_config_def can_use_provider_def no_api_key_def

lemma laptop_usable:
  "\<exists>c. (DEEPSEEK_API, c) \<in> set (available_providers laptop_manager) \<and>
       can_use_provider (hardware_profile laptop_manager) c \<and> priority c = 2"
  by (simp add: host_defs)

lemma laptop_facts:
  "preferred_provider laptop_manager = None"
  "ram_gb (hardware_profile laptop_manager) = 8"
  "current_provider (select_best_provider laptop_manager) = Some DEEPSEEK_LOCAL"
  by (simp_all add: preferred_provider_def select_best_provider_def host_defs)

theorem select_best_provider_lowest_priority_witness:
  "\<exists>p c. current_provider (select_best_provider laptop_manager) = Some p \<and>
         (p, c) \<in> set (available_providers laptop_manager) \<and>
         can_use_provider (hardware_profile laptop_manager) c \<and> priority c \<le> 2"
proof -
  from laptop_usable obtain ca where ca:
    "(DEEPSEEK_API, ca) \<in> set (available_providers laptop_manager)"
    "can_use_provider (hardware_profile laptop_manager) ca" "priority ca = 2" by blast
  from select_best_provider_lowest_priority [of laptop_manager _ DEEPSEEK_API ca]
    laptop_facts(1) ca
  show ?thesis by auto
qed

text \<open>
  C4 as stated fails: the user prefers \<open>FALLBACK\<close>, of priority 10, and it is selected
  although two providers of lower priority value pass the check.
\<close>

theorem select_best_provider_prefers_user_choice:
  "user_preference preferring_manager = Some FALLBACK \<and>
   provider_summary preferring_manager =
     [(DEEPSEEK_LOCAL, 1, 4, True), (DEEPSEEK_API, 2, 4, True), (OPENAI_API, 3, 4, False),
      (ANTHROPIC_API, 4, 4, False), (GEMINI_API, 5, 4, False), (FALLBACK, 10, 4, True)] \<and>
   current_provider (select_best_provider preferring_manager) = Some FALLBACK"
  by (simp add: preferring_manager_def set_user_preference_def provider_summary_def
      select_best_provider_def host_defs)

theorem select_best_provider_hardware_witness:
  "\<exists>p c. current_provider (select_best_provider laptop_manager) = Some p \<and>
         (p, c) \<in> set (available_providers laptop_manager) \<and>
         \<not> (requires_gpu c \<and> \<not> has_gpu (hardware_profile laptop_manager)) \<and>
         min_ram_gb c \<le> 8"
proof -
  from laptop_usable have
    "\<not> (\<forall>(q, d) \<in> set (available_providers laptop_manager).
          \<not> can_use_provider (hardware_profile laptop_manager) d)"
    by blast
  with select_best_provider_hardware [of laptop_manager] laptop_facts(2)
  show ?thesis by auto
qed

text \<open>
  C5 as stated fails: on a host with 2 GB no provider passes the check, and the selection
  returns \<open>FALLBACK\<close>, which requires 4 GB.
\<close>

theorem select_best_provider_last_resort_unchecked:
  "ram_gb (hardware_profile small_host_manager) = 2 \<and>
   provider_summary small_host_manager =
     [(DEEPSEEK_API, 2, 4, False), (OPENAI_API, 3, 4, False), (ANTHROPIC_API, 4, 4, False),
      (GEMINI_API, 5, 4, False), (FALLBACK, 10, 4, False)] \<and>
   current_provider (select_best_provider small_host_manager) = Some FALLBACK"
  by (simp add: provider_summary_def select_best_provider_def host_defs)

section \<open>Properties of the API manager\<close>

lemma build_response_confidence:
  "build_response w i t res = Inr r \<Longrightarrow> confidence r = 90"
  by (auto simp: build_response_def split: option.splits)

lemma generate_with_model_confidence:
  "generate_with_model w m i t prompt = Inr r \<Longrightarrow> confidence r = 90"
  by (auto simp: generate_with_model_def split: option.splits if_splits sum.splits
      dest: build_response_confidence)

lemma generate_with_model_fails:
  assumes "\<forall>i t. t \<in> set (models m) \<longrightarrow> (\<exists>e. provider_generate w i t prompt = Inl e)"
  shows "\<exists>e. generate_with_model w m i t prompt = Inl e"
proof (cases "t \<in> set (models m)")
  case True
  with assms obtain e where "provider_generate w i t prompt = Inl e" by blast
  with True show ?thesis by (simp add: generate_with_model_def split: option.splits)
next
  case False
  then show ?thesis by (simp add: generate_with_model_def split: option.splits)
qed

lemma try_fallback_loop_confidence:
  "try_fallback_loop w m i prompt ts = Inr (r, m') \<Longrightarrow> confidence r = 90"
proof (induction ts arbitrary: i)
  case Nil
  then show ?case by simp
next
  case (Cons t ts)
  from Cons.prems show ?case
    by (auto split: if_splits option.splits sum.splits
        dest: generate_with_model_confidence Cons.IH)
qed

lemma try_fallback_loop_fails:
  assumes "\<forall>i t. t \<in> set (models m) \<longrightarrow> (\<exists>e. provider_generate w i t prompt = Inl e)"
  shows "try_fallback_loop w m i prompt ts = Inl (PyException ''All models failed'')"
proof (induction ts arbitrary: i)
  case Nil
  show ?case by simp
next
  case (Cons t ts)
  from generate_with_model_fails [OF assms] obtain e where
    "generate_with_model w m i t prompt = Inl e" by blast
  then show ?case using Cons.IH by (simp split: option.splits)
qed

lemma body_confidence:
  "generate_response_body w m prompt = Inr (r, m') \<Longrightarrow> confidence r = 90"
  by (auto simp: generate_response_body_def Let_def try_fallback_models_def
      split: option.splits if_splits sum.splits
      dest: generate_with_model_confidence try_fallback_loop_confidence)

lemma body_fails:
  assumes "\<forall>i t. t \<in> set (models m) \<longrightarrow> (\<exists>e. provider_generate w i t prompt = Inl e)"
  shows "\<exists>e m'. generate_response_body w m prompt = Inl (e, m')"
proof -
  let ?m = "m\<lparr>api_metrics := (api_metrics m)\<lparr>total_requests := total_requests (api_metrics m) + 1\<rparr>\<rparr>"
  have a: "\<forall>i t. t \<in> set (models ?m) \<longrightarrow> (\<exists>e. provider_generate w i t prompt = Inl e)"
    using assms by simp
  have f: "try_fallback_models w ?m i prompt = Inl (PyException ''All models failed'')" for i
    unfolding try_fallback_models_def by (rule try_fallback_loop_fails [OF a])
  have g: "\<exists>e. generate_with_model w ?m 0 t prompt = Inl e" for t
    by (rule generate_with_model_fails [OF a])
  show ?thesis
  proof (cases "case current_model ?m of None \<Rightarrow> None
               | Some t \<Rightarrow> if t \<in> set (models ?m) then Some t else None")
    case None
    then show ?thesis unfolding generate_response_body_def Let_def by (simp add: f)
  next
    case (Some t)
    from g [of t] obtain e where "generate_with_model w ?m 0 t prompt = Inl e" by blast
    with Some show ?thesis unfolding generate_response_body_def Let_def by (simp add: f)
  qed
qed

text \<open>
  C10. \<^verbatim>\<open>generate_response\<close> returns a response for every prompt and never lets an
  exception out. When every initialised provider fails, the response has the model
  \<^verbatim>\<open>"error-recovery"\<close>, cost 0 and confidence 0; every other response has confidence 90,
  which tells the two apart.
\<close>

theorem generate_response_never_raises:
  "\<exists>r m'. generate_response w m prompt = Inr (r, m') \<and>
     ((\<forall>i t. t \<in> set (models m) \<longrightarrow> (\<exists>e. provider_generate w i t prompt = Inl e)) \<longrightarrow>
        model r = ''error-recovery'' \<and> cost r = 0 \<and> confidence r = 0) \<and>
     (confidence r = 90 \<or>
      model r = ''error-recovery'' \<and> cost r = 0 \<and> confidence r = 0)"
proof (cases "generate_response_body w m prompt")
  case (Inl a)
  obtain e m1 where a: "a = (e, m1)" by (cases a)
  with Inl show ?thesis by (simp add: generate_response_def create_error_response_def)
next
  case (Inr b)
  obtain r m1 where b: "b = (r, m1)" by (cases b)
  have "\<not> (\<forall>i t. t \<in> set (models m) \<longrightarrow> (\<exists>e. provider_generate w i t prompt = Inl e))"
    using body_fails [of m w prompt] Inr by auto
  with Inr b body_confidence [of w m prompt r m1] show ?thesis
    by (simp add: generate_response_def)
qed

theorem generate_response_never_raises_witness:
  "\<exists>r m'. generate_response failing_api_world two_model_manager ''hello'' = Inr (r, m') \<and>
          model r = ''error-recovery'' \<and> cost r = 0 \<and> confidence r = 0"
proof -
  have "\<forall>i t. t \<in> set (models two_model_manager) \<longrightarrow>
          (\<exists>e. provider_generate failing_api_world i t ''hello'' = Inl e)"
    by (simp add: failing_api_world_def)
  with generate_response_never_raises [of failing_api_world two_model_manager "''hello''"]
  show ?thesis by blast
qed

text \<open>
  \<^verbatim>\<open>_select_optimal_model\<close> of this manager takes the first entry of \<^verbatim>\<open>model_priority\<close>
  that is enabled and initialised; the \<open>priority\<close> field of the configurations is not read.
\<close>

lemma first_enabled_Some:
  "first_enabled m ts = Some t \<Longrightarrow>
   t \<in> set ts \<and> t \<in> set (models m) \<and> (\<exists>c. model_configs m t = Some c \<and> mc_enabled c)"
  by (induction ts) (auto split: option.splits if_splits)

lemma two_model_manager_current:
  "current_model two_model_manager = Some API_GEMINI"
  by (simp add: two_model_manager_def api_select_optimal_model_def new_api_manager_def
      default_configs_def)

section \<open>Properties of the engine coordinator\<close>

lemma context_after_failures:
  "foldl context_after d rs = foldl context_after d (filter success rs)"
  by (induction rs arbitrary: d) (auto simp: context_after_def)

lemma sequential_loop_trace:
  "\<exists>new. sequential_loop w c tt es d rs0 = rs0 @ new \<and>
         map engine_type new = filter (\<lambda>e. e \<in> engines c) es \<and>
         (\<forall>k < length new.
            answers (execute_single_engine w c (length rs0 + k)
                       (filter (\<lambda>e. e \<in> engines c) es ! k) tt
                       (foldl context_after d (take k new)))
              (filter (\<lambda>e. e \<in> engines c) es ! k) (new ! k))"
proof (induction es arbitrary: d rs0)
  case Nil
  show ?case by simp
next
  case (Cons e es)
  show ?case
  proof (cases "e \<in> engines c")
    case False
    with Cons.IH [of d rs0] show ?thesis by simp
  next
    case True
    let ?out = "execute_single_engine w c (length rs0) e tt d"
    obtain r where r: "sequential_loop w c tt (e # es) d rs0 =
        sequential_loop w c tt es (context_after d r) (rs0 @ [r])" "answers ?out e r"
    proof (cases ?out)
      case (Inl ex)
      let ?r = "\<lparr>engine_type = e, success = False, result = PNone,
                    execution_time_ms = elapsed_ms w (length rs0),
                    metadata = [(''error'', PStr (str_exn ex))]\<rparr>"
      have "sequential_loop w c tt (e # es) d rs0 =
          sequential_loop w c tt es (context_after d ?r) (rs0 @ [?r])"
        using True Inl by (simp add: context_after_def)
      moreover have "answers ?out e ?r" using Inl by (simp add: answers_def)
      ultimately show ?thesis by (rule that)
    next
      case (Inr v)
      let ?r = "\<lparr>engine_type = e, success = True, result = v,
                    execution_time_ms = elapsed_ms w (length rs0),
                    metadata = [(''execution_order'', PInt (int (length rs0) + 1))]\<rparr>"
      have "sequential_loop w c tt (e # es) d rs0 =
          sequential_loop w c tt es (context_after d ?r) (rs0 @ [?r])"
        using True Inr by (simp add: context_after_def)
      moreover have "answers ?out e ?r" using Inr by (simp add: answers_def)
      ultimately show ?thesis by (rule that)
    qed
    from Cons.IH [of "context_after d r" "rs0 @ [r]"] obtain new where new:
      "sequential_loop w c tt es (context_after d r) (rs0 @ [r]) = (rs0 @ [r]) @ new"
      "map engine_type new = filter (\<lambda>e. e \<in> engines c) es"
      "\<forall>k < length new.
            answers (execute_single_engine w c (length (rs0 @ [r]) + k)
                       (filter (\<lambda>e. e \<in> engines c) es ! k) tt
                       (foldl context_after (context_after d r) (take k new)))
              (filter (\<lambda>e. e \<in> engines c) es ! k) (new ! k)"
      by blast
    have et: "engine_type r = e" using r(2) by (simp add: answers_def)
    have "sequential_loop w c tt (e # es) d rs0 = rs0 @ (r # new)" using r(1) new(1) by simp
    moreover have "map engine_type (r # new) = filter (\<lambda>e. e \<in> engines c) (e # es)"
      using True new(2) et by simp
    moreover have "\<forall>k < length (r # new).
            answers (execute_single_engine w c (length rs0 + k)
                       (filter (\<lambda>e. e \<in> engines c) (e # es) ! k) tt
                       (foldl context_after d (take k (r # new))))
              (filter (\<lambda>e. e \<in> engines c) (e # es) ! k) ((r # new) ! k)"
    proof (intro allI impI)
      fix k assume k: "k < length (r # new)"
      show "answers (execute_single_engine w c (length rs0 + k)
                       (filter (\<lambda>e. e \<in> engines c) (e # es) ! k) tt
                       (foldl context_after d (take k (r # new))))
              (filter (\<lambda>e. e \<in> engines c) (e # es) ! k) ((r # new) ! k)"
      proof (cases k)
        case 0
        with True r(2) show ?thesis by simp
      next
        case (Suc j)
        with k have "j < length new" by simp
        with new(3) have "answers (execute_single_engine w c (length (rs0 @ [r]) + j)
                       (filter (\<lambda>e. e \<in> engines c) es ! j) tt
                       (foldl context_after (context_after d r) (take j new)))
              (filter (\<lambda>e. e \<in> engines c) es ! j) (new ! j)" by blast
        with Suc True show ?thesis by simp
      qed
    qed
    ultimately show ?thesis by blast
  qed
qed

lemma execute_sequential_trace:
  "map engine_type (execute_sequential w c request) = present_engines c request \<and>
   (\<forall>k < length (present_engines c request).
      answers (execute_single_engine w c k (present_engines c request ! k) (task_type request)
                 (foldl context_after (input_data request)
                    (take k (execute_sequential w c request))))
        (present_engines c request ! k) (execute_sequential w c request ! k))"
proof -
  from sequential_loop_trace [of w c "task_type request" "required_engines request"
      "input_data request" "[]"]
  obtain new where new: "execute_sequential w c request = new"
    "map engine_type new = present_engines c request"
    "\<forall>k < length new.
       answers (execute_single_engine w c k (present_engines c request ! k) (task_type request)
                  (foldl context_after (input_data request) (take k new)))
         (present_engines c request ! k) (new ! k)"
    unfolding execute_sequential_def present_engines_def by auto
  have "length new = length (present_engines c request)"
    using new(2) by (metis length_map)
  with new show ?thesis by simp
qed

lemma timing_answers:
  "answers (execute_single_engine w c i e tt d) e (execute_engine_with_timing w c i e tt d)"
  by (simp add: answers_def execute_engine_with_timing_def split: sum.splits)

lemma execute_parallel_trace:
  "map engine_type (execute_parallel w c request) = present_engines c request \<and>
   (\<forall>k < length (present_engines c request).
      execute_parallel w c request ! k =
        execute_engine_with_timing w c k (present_engines c request ! k) (task_type request)
          (input_data request))"
proof -
  have et: "engine_type (execute_engine_with_timing w c i e tt d) = e" for i e tt d
    by (simp add: execute_engine_with_timing_def split: sum.splits)
  have "map engine_type (execute_parallel w c request) =
        map snd (enumerate 0 (present_engines c request))"
    unfolding execute_parallel_def present_engines_def Let_def
    by (simp add: et case_prod_unfold comp_def)
  then have "map engine_type (execute_parallel w c request) = present_engines c request"
    by simp
  moreover have "\<forall>k < length (present_engines c request).
      execute_parallel w c request ! k =
        execute_engine_with_timing w c k (present_engines c request ! k) (task_type request)
          (input_data request)"
    unfolding execute_parallel_def present_engines_def Let_def
    by (simp add: nth_enumerate_eq)
  ultimately show ?thesis by blast
qed

text \<open>
  C6. A response that \<^verbatim>\<open>execute_coordinated_task\<close> returns is marked successful exactly
  when one of the engine responses in it is successful, and these are the responses of
  the strategy that was run.
\<close>

theorem coordinated_success_iff_engine_success:
  "fst (execute_coordinated_task w c request) = Inr response \<Longrightarrow>
   cr_success response = (\<exists>r \<in> set (engine_responses response). success r) \<and>
   engine_responses response = select_strategy (coordination_strategy request) w c request"
  by (auto simp: execute_coordinated_task_def Let_def list_ex_iff
      split: sum.splits if_splits)

lemma scenario_sequential:
  "execute_sequential studio_world ready_coordinator (scenario_request ''sequential'') =
     [\<lparr>engine_type = PERFECT_RECALL, success = False, result = PNone, execution_time_ms = 5,
       metadata = [(''error'', PStr ''index offline'')]\<rparr>,
      \<lparr>engine_type = CREATIVE, success = True, result = PStr ''three ideas'',
       execution_time_ms = 5, metadata = [(''execution_order'', PInt 2)]\<rparr>]"
  by (simp add: execute_sequential_def scenario_request_def studio_world_def
      ready_coordinator_def execute_single_engine_def and_then_def data_get_def
      output_data_def)

lemma scenario_parallel:
  "execute_parallel studio_world ready_coordinator (scenario_request ''parallel'') =
     [\<lparr>engine_type = PERFECT_RECALL, success = False, result = PNone, execution_time_ms = 5,
       metadata = [(''error'', PStr ''index offline''), (''task_type'', PStr ''recall'')]\<rparr>,
      \<lparr>engine_type = CREATIVE, success = True, result = PStr ''three ideas'',
       execution_time_ms = 5, metadata = [(''task_type'', PStr ''recall'')]\<rparr>]"
  by (simp add: execute_parallel_def scenario_request_def studio_world_def
      ready_coordinator_def execute_single_engine_def and_then_def data_get_def
      execute_engine_with_timing_def enumerate_eq_zip upt_rec)

lemma scenario_returns:
  "\<exists>response. fst (execute_coordinated_task studio_world ready_coordinator
                     (scenario_request ''sequential'')) = Inr response"
proof -
  have s: "select_strategy (coordination_strategy (scenario_request ''sequential''))
             studio_world ready_coordinator (scenario_request ''sequential'') =
           execute_sequential studio_world ready_coordinator (scenario_request ''sequential'')"
    by (simp add: select_strategy_def scenario_request_def)
  have t: "task_type (scenario_request ''sequential'') = ''recall''"
    by (simp add: scenario_request_def)
  show ?thesis
    unfolding execute_coordinated_task_def Let_def s scenario_sequential
    by (simp add: synthesize_results_def t)
qed

theorem coordinated_success_iff_engine_success_witness:
  "\<exists>response. fst (execute_coordinated_task studio_world ready_coordinator
                     (scenario_request ''sequential'')) = Inr response \<and>
              cr_success response \<and>
              map success (engine_responses response) = [False, True]"
proof -
  from scenario_returns obtain response where
    r: "fst (execute_coordinated_task studio_world ready_coordinator
               (scenario_request ''sequential'')) = Inr response" by blast
  have s: "select_strategy (coordination_strategy (scenario_request ''sequential''))
             studio_world ready_coordinator (scenario_request ''sequential'') =
           execute_sequential studio_world ready_coordinator (scenario_request ''sequential'')"
    by (simp add: select_strategy_def scenario_request_def)
  from coordinated_success_iff_engine_success [OF r]
  have "cr_success response = (\<exists>r \<in> set (engine_responses response). success r)"
    and "engine_responses response =
         execute_sequential studio_world ready_coordinator (scenario_request ''sequential'')"
    by (simp_all add: s)
  then have a: "cr_success response"
    and b: "map success (engine_responses response) = [False, True]"
    by (simp_all add: scenario_sequential)
  show ?thesis
    by (rule exI [of _ response], intro conjI, rule r, rule a, rule b)
qed

lemma execute_returns:
  assumes "select_strategy (coordination_strategy request) w c request \<noteq> []"
    and "task_type request \<notin> set [''creative_debugging'', ''comprehensive_analysis'',
                                      ''intelligent_generation'']"
  shows "\<exists>response. fst (execute_coordinated_task w c request) = Inr response \<and>
           engine_responses response =
             select_strategy (coordination_strategy request) w c request"
proof -
  obtain v where "synthesize_results w request
      (select_strategy (coordination_strategy request) w c request) = Inr v"
    using assms(2)
    by (cases "filter success (select_strategy (coordination_strategy request) w c request)")
       (simp_all add: synthesize_results_def)
  with assms(1) show ?thesis
    by (simp add: execute_coordinated_task_def Let_def)
qed

text \<open>
  C7. In the sequential and in the parallel strategy every required engine that the
  coordinator has gets a response, in the order of the request and whatever the other
  engines did. The response at position \<open>k\<close> records the outcome of that engine's own
  invocation: the result, or a failure with the text of the exception under \<^verbatim>\<open>"error"\<close>.
  In the sequential strategy the engine is invoked on the data that the successful
  responses before it leave, so a failure passes the data on unchanged; in the parallel
  strategy it is invoked on the input data of the request. When some required engine is
  there and the task type has no synthesizer of its own, the coordinated task returns a
  response that holds these engine responses.
\<close>

theorem engine_failure_isolated:
  "map engine_type (execute_sequential w c request) = present_engines c request \<and>
   map engine_type (execute_parallel w c request) = present_engines c request \<and>
   (k < length (present_engines c request) \<longrightarrow>
      answers (execute_single_engine w c k (present_engines c request ! k) (task_type request)
                 (foldl context_after (input_data request)
                    (filter success (take k (execute_sequential w c request)))))
        (present_engines c request ! k) (execute_sequential w c request ! k) \<and>
      answers (execute_single_engine w c k (present_engines c request ! k) (task_type request)
                 (input_data request))
        (present_engines c request ! k) (execute_parallel w c request ! k)) \<and>
   (present_engines c request \<noteq> [] \<and>
    task_type request \<notin> set [''creative_debugging'', ''comprehensive_analysis'',
                                ''intelligent_generation''] \<longrightarrow>
      (coordination_strategy request = ''sequential'' \<longrightarrow>
         (\<exists>response. fst (execute_coordinated_task w c request) = Inr response \<and>
            engine_responses response = execute_sequential w c request)) \<and>
      (coordination_strategy request = ''parallel'' \<longrightarrow>
         (\<exists>response. fst (execute_coordinated_task w c request) = Inr response \<and>
            engine_responses response = execute_parallel w c request)))"
proof (intro conjI impI)
  show seq: "map engine_type (execute_sequential w c request) = present_engines c request"
    using execute_sequential_trace by blast
  show par: "map engine_type (execute_parallel w c request) = present_engines c request"
    using execute_parallel_trace by blast
  {
    assume k: "k < length (present_engines c request)"
    from execute_sequential_trace [of w c request] k
    have "answers (execute_single_engine w c k (present_engines c request ! k) (task_type request)
                 (foldl context_after (input_data request)
                    (take k (execute_sequential w c request))))
        (present_engines c request ! k) (execute_sequential w c request ! k)"
      by blast
    then show "answers (execute_single_engine w c k (present_engines c request ! k)
                 (task_type request)
                 (foldl context_after (input_data request)
                    (filter success (take k (execute_sequential w c request)))))
        (present_engines c request ! k) (execute_sequential w c request ! k)"
      by (simp only: context_after_failures [symmetric])
    from execute_parallel_trace [of w c request] k
    have "execute_parallel w c request ! k =
        execute_engine_with_timing w c k (present_engines c request ! k) (task_type request)
          (input_data request)"
      by blast
    then show "answers (execute_single_engine w c k (present_engines c request ! k)
                 (task_type request) (input_data request))
        (present_engines c request ! k) (execute_parallel w c request ! k)"
      by (simp only: timing_answers)
  }
  {
    assume a: "present_engines c request \<noteq> [] \<and>
      task_type request \<notin> set [''creative_debugging'', ''comprehensive_analysis'',
                                  ''intelligent_generation'']"
    {
      assume s: "coordination_strategy request = ''sequential''"
      then have sel: "select_strategy (coordination_strategy request) w c request =
          execute_sequential w c request" by (simp add: select_strategy_def)
      have "execute_sequential w c request \<noteq> []" using seq a by auto
      with execute_returns [of request w c] a sel
      show "\<exists>response. fst (execute_coordinated_task w c request) = Inr response \<and>
            engine_responses response = execute_sequential w c request" by simp
    }
    {
      assume s: "coordination_strategy request = ''parallel''"
      then have sel: "select_strategy (coordination_strategy request) w c request =
          execute_parallel w c request" by (simp add: select_strategy_def)
      have "execute_parallel w c request \<noteq> []" using par a by auto
      with execute_returns [of request w c] a sel
      show "\<exists>response. fst (execute_coordinated_task w c request) = Inr response \<and>
            engine_responses response = execute_parallel w c request" by simp
    }
  }
qed

lemma scenario_present:
  "present_engines ready_coordinator (scenario_request s) = [PERFECT_RECALL, CREATIVE]"
  by (simp add: present_engines_def ready_coordinator_def scenario_request_def)

theorem engine_failure_isolated_witness:
  "map engine_type (execute_sequential studio_world ready_coordinator
                      (scenario_request ''sequential'')) = [PERFECT_RECALL, CREATIVE] \<and>
   \<not> success (execute_sequential studio_world ready_coordinator
                 (scenario_request ''sequential'') ! 0) \<and>
   success (execute_sequential studio_world ready_coordinator
              (scenario_request ''sequential'') ! 1) \<and>
   success (execute_parallel studio_world ready_coordinator
              (scenario_request ''sequential'') ! 1)"
proof -
  let ?rq = "scenario_request ''sequential''"
  let ?seq = "execute_sequential studio_world ready_coordinator ?rq"
  let ?par = "execute_parallel studio_world ready_coordinator ?rq"
  note p = scenario_present [of "''sequential''"]
  have len: "0 < length (present_engines ready_coordinator ?rq)"
    "1 < length (present_engines ready_coordinator ?rq)" by (simp_all add: p)
  have rq: "task_type ?rq = ''recall''"
    "input_data ?rq = PDict [(''query'', PStr ''cache bug''), (''problem'', PStr ''cache bug'')]"
    by (simp_all add: scenario_request_def)
  have out0: "execute_single_engine studio_world ready_coordinator i PERFECT_RECALL ''recall'' d =
      (case data_get d ''query'' (PStr []) of Inl e \<Rightarrow> Inl e
       | Inr q \<Rightarrow> Inl (PyException ''index offline''))" for d i
    by (simp add: execute_single_engine_def ready_coordinator_def studio_world_def and_then_def)
  have out1: "execute_single_engine studio_world ready_coordinator i CREATIVE ''recall''
      (PDict [(''query'', PStr ''cache bug''), (''problem'', PStr ''cache bug'')]) =
      Inr (PStr ''three ideas'')" for i
    by (simp add: execute_single_engine_def ready_coordinator_def studio_world_def and_then_def
        data_get_def)
  note th0 = engine_failure_isolated [of studio_world ready_coordinator ?rq 0]
  note th1 = engine_failure_isolated [of studio_world ready_coordinator ?rq 1]
  from th0 have m: "map engine_type ?seq = [PERFECT_RECALL, CREATIVE]" by (simp only: p)
  from th0 len(1) have "answers (execute_single_engine studio_world ready_coordinator 0
        (present_engines ready_coordinator ?rq ! 0) (task_type ?rq)
        (foldl context_after (input_data ?rq) (filter success (take 0 ?seq))))
      (present_engines ready_coordinator ?rq ! 0) (?seq ! 0)" by blast
  then have f0: "\<not> success (?seq ! 0)"
    by (simp add: p rq out0 data_get_def answers_def)
  from th1 len(2) have "answers (execute_single_engine studio_world ready_coordinator 1
        (present_engines ready_coordinator ?rq ! 1) (task_type ?rq) (input_data ?rq))
      (present_engines ready_coordinator ?rq ! 1) (?par ! 1)" by blast
  then have p1: "success (?par ! 1)"
    by (simp add: p rq out1 answers_def)
  have s1: "success (?seq ! 1)" by (simp add: scenario_sequential)
  from m f0 s1 p1 show ?thesis by blast
qed

text \<open>
  The adaptive strategy isolates failures in the same way: every step of the plan whose
  engine is required gets a response, whatever the engines before it did.
\<close>

lemma timing_engine_type:
  "engine_type (execute_engine_with_timing w c i e tt d) = e"
  by (simp add: execute_engine_with_timing_def split: sum.splits)

lemma adaptive_loop_engines:
  "map engine_type (adaptive_loop w c request steps d rs) =
   map engine_type rs @
   map step_engine
     (filter (\<lambda>s. step_mode s \<noteq> ''conditional'' \<and> step_engine s \<in> set (required_engines request))
        steps)"
  by (induction steps arbitrary: d rs) (simp_all add: Let_def timing_engine_type)

lemma execute_adaptive_engines:
  "map engine_type (execute_adaptive w c request) =
   map step_engine
     (filter (\<lambda>s. step_engine s \<in> set (required_engines request))
        (create_optimal_execution_plan (analyze_task_for_optimal_engines request)))"
proof -
  have "step_mode s \<noteq> ''conditional''"
    if "s \<in> set (create_optimal_execution_plan a)" for s a
    using that by (auto simp: create_optimal_execution_plan_def split: if_splits)
  then have "filter (\<lambda>s. step_mode s \<noteq> ''conditional'' \<and> step_engine s \<in> set (required_engines request))
        (create_optimal_execution_plan a) =
      filter (\<lambda>s. step_engine s \<in> set (required_engines request))
        (create_optimal_execution_plan a)" for a
    by (intro filter_cong) auto
  then show ?thesis by (simp add: execute_adaptive_def adaptive_loop_engines)
qed

end
